theory Spec2Isabelle
  imports Main "HOL-Library.AList"
begin

section \<open>The Fiber RPC transports: method mapping\<close>

text \<open>
  Both transports of \<^verbatim>\<open>fiberChain.ts\<close> serialise a JSON-RPC 2.0 envelope
  \<^verbatim>\<open>{jsonrpc, method, params, id}\<close>. The parameters are opaque to the transports, so the
  envelope is polymorphic in them.
\<close>

record 'p envelope =
  env_jsonrpc :: string
  env_method :: string
  env_params :: 'p
  env_id :: nat

text \<open>
  The HTTP transport (\<^verbatim>\<open>createFiberTransport\<close>): the body handed to \<^verbatim>\<open>fetch\<close>.
  The conditional is written inline in the object literal and the id is the constant 1.
\<close>

definition http_request_body :: "string \<Rightarrow> 'p \<Rightarrow> 'p envelope" where
  "http_request_body method params =
     \<lparr> env_jsonrpc = ''2.0'',
       env_method = (if method = ''eth_sendRawTransaction''
                     then ''fiber_sendRawTransaction'' else method),
       env_params = params,
       env_id = 1 \<rparr>"

text \<open>
  The WebSocket transport (\<^verbatim>\<open>createFiberWebSocketTransport\<close>): the constant
  \<^verbatim>\<open>mappedMethod\<close> and the message built from it.
\<close>

definition mappedMethod :: "string \<Rightarrow> string" where
  "mappedMethod method =
     (if method = ''eth_sendRawTransaction'' then ''fiber_sendRawTransaction'' else method)"

definition ws_request_message :: "string \<Rightarrow> 'p \<Rightarrow> nat \<Rightarrow> 'p envelope" where
  "ws_request_message method params rid =
     \<lparr> env_jsonrpc = ''2.0'',
       env_method = mappedMethod method,
       env_params = params,
       env_id = rid \<rparr>"

section \<open>FiberUtils: the write queue\<close>

subsection \<open>Data\<close>

text \<open>
  The parameter object of \<^verbatim>\<open>writeContract\<close> and of a queue entry. Optional fields
  (\<^verbatim>\<open>gas?: bigint\<close> and so on) are options, \<open>None\<close> standing for \<^verbatim>\<open>undefined\<close>; a
  \<^verbatim>\<open>bigint\<close> is an \<open>int\<close>. The ABI, the arguments and the account are opaque here.
\<close>

record tx_params =
  tx_address :: string
  tx_abi :: string
  tx_functionName :: string
  tx_args :: "string list"
  tx_account :: string
  tx_gas :: "int option"
  tx_gasPrice :: "int option"
  tx_value :: "int option"
  tx_nonce :: "nat option"

text \<open>The argument object \<^verbatim>\<open>executeTransaction\<close> passes to \<^verbatim>\<open>walletClient.writeContract\<close>.\<close>

record wallet_call =
  wc_address :: string
  wc_abi :: string
  wc_functionName :: string
  wc_args :: "string list"
  wc_account :: string
  wc_gas :: "int option"
  wc_nonce :: "nat option"
  wc_value :: int
  wc_gasPrice :: int

text \<open>
  \<^verbatim>\<open>WriteContractResult\<close>; only the fields the queue reads or writes are kept apart, the
  rest of the receipt is one opaque field. \<^verbatim>\<open>gas_used\<close> is a JavaScript number holding an
  integer.
\<close>

record write_result =
  wr_hash :: string
  wr_gas_used :: int
  wr_status :: bool
  wr_rest :: string
  wr_weiSpent :: "int option"

datatype tx_error = TxError string

subsection \<open>The execution step\<close>

text \<open>
  The two asynchronous collaborators of \<^verbatim>\<open>executeTransaction\<close>: the chain's answer to
  \<^verbatim>\<open>publicClient.getGasPrice()\<close> and the behaviour of \<^verbatim>\<open>walletClient.writeContract\<close>.
  Either may reject (\<open>Inl\<close>).
\<close>

record chain_env =
  ce_getGasPrice :: "tx_error + int"
  ce_writeContract :: "wallet_call \<Rightarrow> tx_error + write_result"

text \<open>
  What one run of \<^verbatim>\<open>executeTransaction\<close> did: whether the chain was asked for the gas
  price, the calls made to the contract-write primitive, and the value or rejection of the
  returned promise.
\<close>

record exec_report =
  er_queried :: bool
  er_calls :: "wallet_call list"
  er_outcome :: "tx_error + write_result"

text \<open>
  The first statement is \<^verbatim>\<open>gasPrice = gasPrice || (await this.publicClient.getGasPrice())\<close>.
  The operator tests JavaScript truthiness: of an optional bigint, \<^verbatim>\<open>undefined\<close> and
  \<^verbatim>\<open>0n\<close> are falsy, and only then is the right operand evaluated.
\<close>

fun truthy_bigint :: "int option \<Rightarrow> bool" where
  "truthy_bigint None = False"
| "truthy_bigint (Some n) = (n \<noteq> 0)"

definition effective_gasPrice :: "chain_env \<Rightarrow> int option \<Rightarrow> bool \<times> (tx_error + int)" where
  "effective_gasPrice env gp =
     (case gp of
        None \<Rightarrow> (True, ce_getGasPrice env)
      | Some g \<Rightarrow> if truthy_bigint (Some g) then (False, Inr g) else (True, ce_getGasPrice env))"

definition executeTransaction :: "chain_env \<Rightarrow> tx_params \<Rightarrow> exec_report" where
  "executeTransaction env p =
     (let val = (case tx_value p of None \<Rightarrow> 0 | Some v \<Rightarrow> v);
          (queried, price) = effective_gasPrice env (tx_gasPrice p)
      in case price of
           Inl e \<Rightarrow> \<lparr> er_queried = queried, er_calls = [], er_outcome = Inl e \<rparr>
         | Inr gp \<Rightarrow>
             (let call = \<lparr> wc_address = tx_address p, wc_abi = tx_abi p,
                           wc_functionName = tx_functionName p, wc_args = tx_args p,
                           wc_account = tx_account p, wc_gas = tx_gas p,
                           wc_nonce = tx_nonce p, wc_value = val, wc_gasPrice = gp \<rparr>
              in case ce_writeContract env call of
                   Inl e \<Rightarrow> \<lparr> er_queried = queried, er_calls = [call], er_outcome = Inl e \<rparr>
                 | Inr r \<Rightarrow>
                     \<lparr> er_queried = queried, er_calls = [call],
                       er_outcome = Inr (r\<lparr> wr_weiSpent := Some (wr_gas_used r * gp) \<rparr>) \<rparr>))"

subsection \<open>Submission\<close>

text \<open>
  The destructuring defaults of \<^verbatim>\<open>writeContract\<close>: \<^verbatim>\<open>gas = BigInt(600000)\<close>,
  \<^verbatim>\<open>gasPrice = BigInt(1)\<close>, \<^verbatim>\<open>value = BigInt(0)\<close>. A default applies when the property is
  \<^verbatim>\<open>undefined\<close>; \<^verbatim>\<open>nonce\<close> has none.
\<close>

definition writeContract_params :: "tx_params \<Rightarrow> tx_params" where
  "writeContract_params p =
     \<lparr> tx_address = tx_address p, tx_abi = tx_abi p, tx_functionName = tx_functionName p,
       tx_args = tx_args p, tx_account = tx_account p,
       tx_gas = Some (case tx_gas p of None \<Rightarrow> 600000 | Some g \<Rightarrow> g),
       tx_gasPrice = Some (case tx_gasPrice p of None \<Rightarrow> 1 | Some g \<Rightarrow> g),
       tx_value = Some (case tx_value p of None \<Rightarrow> 0 | Some v \<Rightarrow> v),
       tx_nonce = tx_nonce p \<rparr>"

subsection \<open>The queue and its drain worker\<close>

text \<open>
  A queue entry holds the parameters and the \<^verbatim>\<open>resolve\<close>/\<^verbatim>\<open>reject\<close> pair of the promise
  \<^verbatim>\<open>writeContract\<close> returned. The pair is represented by the number of that promise.
\<close>

record queue_entry =
  qe_promise :: nat
  qe_params :: tx_params

text \<open>
  The state of the \<^verbatim>\<open>FiberUtils\<close> instance as far as the queue goes:
  \<^verbatim>\<open>transactionQueue\<close> and \<^verbatim>\<open>isProcessingQueue\<close> are the fields of the class.
  \<^verbatim>\<open>processTransactionQueue\<close> is an \<^verbatim>\<open>async\<close> method, so an activation of it that has
  reached \<^verbatim>\<open>await this.executeTransaction(queueItem.params)\<close> is suspended with its
  \<^verbatim>\<open>queueItem\<close>; \<open>fq_workers\<close> lists the suspended activations. Three logs record what a
  test double would observe: every entry in submission order, the parameters of every call
  of \<^verbatim>\<open>executeTransaction\<close> in call order, and every settled promise with its outcome in
  settlement order (settled by the drain loop after an execution, or rejected by
  \<^verbatim>\<open>cleanup()\<close>).
\<close>

record fiber_queue =
  transactionQueue :: "queue_entry list"
  isProcessingQueue :: bool
  fq_workers :: "queue_entry list"
  fq_submitted :: "queue_entry list"
  fq_executed :: "tx_params list"
  fq_settled :: "(queue_entry \<times> (tx_error + write_result)) list"

definition queue_init :: fiber_queue where
  "queue_init = \<lparr> transactionQueue = [], isProcessingQueue = False, fq_workers = [],
                   fq_submitted = [], fq_executed = [], fq_settled = [] \<rparr>"

text \<open>
  The \<^verbatim>\<open>while\<close> loop of \<^verbatim>\<open>processTransactionQueue\<close> from its test up to the next
  suspension: with an empty queue the loop ends and the flag is cleared; otherwise the head
  is shifted off, \<^verbatim>\<open>executeTransaction\<close> is called with its parameters and the activation
  suspends on the returned promise.
\<close>

definition drain_loop :: "fiber_queue \<Rightarrow> fiber_queue" where
  "drain_loop s =
     (case transactionQueue s of
        [] \<Rightarrow> s\<lparr> isProcessingQueue := False \<rparr>
      | queueItem # rest \<Rightarrow>
          s\<lparr> transactionQueue := rest,
             fq_executed := fq_executed s @ [qe_params queueItem],
             fq_workers := fq_workers s @ [queueItem] \<rparr>)"

definition processTransactionQueue :: "fiber_queue \<Rightarrow> fiber_queue" where
  "processTransactionQueue s =
     (if isProcessingQueue s \<or> transactionQueue s = [] then s
      else drain_loop (s\<lparr> isProcessingQueue := True \<rparr>))"

text \<open>
  \<^verbatim>\<open>writeContract\<close>: the promise executor runs at once; it pushes the entry, with the
  defaults applied, and calls \<^verbatim>\<open>processTransactionQueue\<close>.
\<close>

definition writeContract :: "tx_params \<Rightarrow> fiber_queue \<Rightarrow> fiber_queue" where
  "writeContract p s =
     (let item = \<lparr> qe_promise = length (fq_submitted s), qe_params = writeContract_params p \<rparr>
      in processTransactionQueue
           (s\<lparr> transactionQueue := transactionQueue s @ [item],
               fq_submitted := fq_submitted s @ [item] \<rparr>))"

text \<open>
  The promise awaited by the suspended activation number \<open>k\<close> settles, the chain having
  behaved as \<open>env\<close> during the execution: the activation resumes, resolves or rejects the
  entry's promise with the outcome, and goes round the loop again.
\<close>

definition execution_done :: "nat \<Rightarrow> chain_env \<Rightarrow> fiber_queue \<Rightarrow> fiber_queue" where
  "execution_done k env s =
     (if k < length (fq_workers s) then
        (let queueItem = fq_workers s ! k;
             out = er_outcome (executeTransaction env (qe_params queueItem))
         in drain_loop
              (s\<lparr> fq_workers := take k (fq_workers s) @ drop (Suc k) (fq_workers s),
                  fq_settled := fq_settled s @ [(queueItem, out)] \<rparr>))
      else s)"

text \<open>
  \<^verbatim>\<open>cleanup()\<close>, as far as the queue goes (its other statements close the two connections):
  the promise of every entry still queued is rejected with the error
  \<^verbatim>\<open>"Service cleanup: Transaction cancelled"\<close>, the queue is emptied and the flag is cleared.
  An activation suspended at its \<^verbatim>\<open>await\<close> is not touched: it resumes when its execution
  completes.
\<close>

definition cleanup :: "fiber_queue \<Rightarrow> fiber_queue" where
  "cleanup s =
     s\<lparr> fq_settled := fq_settled s
           @ map (\<lambda>item. (item, Inl (TxError ''Service cleanup: Transaction cancelled'')))
               (transactionQueue s),
        transactionQueue := [],
        isProcessingQueue := False \<rparr>"

text \<open>
  What can happen to the queue: a caller submits through \<^verbatim>\<open>writeContract\<close>, the execution
  awaited by a suspended activation completes, or \<^verbatim>\<open>cleanup()\<close> is called.
\<close>

datatype queue_event = Submit tx_params | ExecutionDone nat chain_env | Cleanup

fun queue_step :: "fiber_queue \<Rightarrow> queue_event \<Rightarrow> fiber_queue" where
  "queue_step s (Submit p) = writeContract p s"
| "queue_step s (ExecutionDone k env) = execution_done k env s"
| "queue_step s Cleanup = cleanup s"

definition run_queue :: "queue_event list \<Rightarrow> fiber_queue" where
  "run_queue evs = foldl queue_step queue_init evs"

fun submissions :: "queue_event list \<Rightarrow> tx_params list" where
  "submissions [] = []"
| "submissions (Submit p # evs) = p # submissions evs"
| "submissions (ExecutionDone k env # evs) = submissions evs"
| "submissions (Cleanup # evs) = submissions evs"

fun is_cleanup :: "queue_event \<Rightarrow> bool" where
  "is_cleanup Cleanup = True"
| "is_cleanup e = False"

definition cleanup_free :: "queue_event list \<Rightarrow> bool" where
  "cleanup_free evs = list_all (\<lambda>e. \<not> is_cleanup e) evs"

text \<open>
  The invariant of the queue as long as \<^verbatim>\<open>cleanup()\<close> has not been called: the settled entries, the entry in flight and the entries still
  queued are, in this order, the submitted ones; \<^verbatim>\<open>executeTransaction\<close> has been called
  for exactly the settled entries and the one in flight; at most one activation of the drain
  loop exists, the flag says whether one does, and the queue is empty when none does.
\<close>

definition queue_inv :: "fiber_queue \<Rightarrow> bool" where
  "queue_inv s \<longleftrightarrow>
     fq_submitted s = map fst (fq_settled s) @ fq_workers s @ transactionQueue s
     \<and> fq_executed s = map qe_params (map fst (fq_settled s) @ fq_workers s)
     \<and> length (fq_workers s) \<le> 1
     \<and> isProcessingQueue s = (fq_workers s \<noteq> [])
     \<and> (fq_workers s = [] \<longrightarrow> transactionQueue s = [])"

subsection \<open>Sample inputs\<close>

definition sample_params :: tx_params where
  "sample_params =
     \<lparr> tx_address = ''0xc0ffee'', tx_abi = ''counter'', tx_functionName = ''increment'',
       tx_args = [], tx_account = ''0xa11ce'', tx_gas = None, tx_gasPrice = None,
       tx_value = None, tx_nonce = None \<rparr>"

definition sample_receipt :: write_result where
  "sample_receipt = \<lparr> wr_hash = ''0xabc'', wr_gas_used = 21000, wr_status = True,
                       wr_rest = [], wr_weiSpent = None \<rparr>"

definition sample_chain :: chain_env where
  "sample_chain = \<lparr> ce_getGasPrice = Inr 7, ce_writeContract = (\<lambda>c. Inr sample_receipt) \<rparr>"

section \<open>FiberUtils: decoding Solidity errors\<close>

subsection \<open>JavaScript strings\<close>

text \<open>
  A JavaScript string is a sequence of code units; the payloads here are hexadecimal text,
  one \<open>char\<close> per code unit. \<^verbatim>\<open>startsWith\<close> and \<^verbatim>\<open>slice\<close> follow the language
  definition: a negative index of \<^verbatim>\<open>slice\<close> counts from the end, both indices are clamped
  to the string, and an end before the start gives the empty string.
\<close>

definition startsWith :: "string \<Rightarrow> string \<Rightarrow> bool" where
  "startsWith s p = (take (length p) s = p)"

definition slice :: "string \<Rightarrow> int \<Rightarrow> int \<Rightarrow> string" where
  "slice s b e =
     (let n = int (length s);
          from = (if b < 0 then max (n + b) 0 else min b n);
          to = (if e < 0 then max (n + e) 0 else min e n)
      in take (nat (to - from)) (drop (nat from) s))"

definition slice_from :: "string \<Rightarrow> int \<Rightarrow> string" where
  "slice_from s b = slice s b (int (length s))"

text \<open>
  \<^verbatim>\<open>parseInt(str, 16)\<close>: leading white space is skipped (the ASCII white space characters
  are modelled), then an optional sign, then an optional \<^verbatim>\<open>0x\<close>, then the longest run of
  hexadecimal digits; without a digit the result is \<^verbatim>\<open>NaN\<close>, here \<open>None\<close>.
\<close>

definition is_js_space :: "char \<Rightarrow> bool" where
  "is_js_space c = ((of_char c :: nat) \<in> {9, 10, 11, 12, 13, 32})"

definition hex_digit :: "char \<Rightarrow> nat option" where
  "hex_digit c =
     (let n = (of_char c :: nat)
      in if 48 \<le> n \<and> n \<le> 57 then Some (n - 48)
         else if 97 \<le> n \<and> n \<le> 102 then Some (n - 87)
         else if 65 \<le> n \<and> n \<le> 70 then Some (n - 55)
         else None)"

definition hex_value :: "string \<Rightarrow> nat" where
  "hex_value ds = foldl (\<lambda>a c. 16 * a + (case hex_digit c of None \<Rightarrow> 0 | Some d \<Rightarrow> d)) 0 ds"

definition all_hex :: "string \<Rightarrow> bool" where
  "all_hex s = list_all (\<lambda>c. hex_digit c \<noteq> None) s"

definition parseInt16 :: "string \<Rightarrow> int option" where
  "parseInt16 str =
     (let s1 = dropWhile is_js_space str;
          neg = (s1 \<noteq> [] \<and> hd s1 = CHR ''-'');
          s2 = (if s1 \<noteq> [] \<and> (hd s1 = CHR ''-'' \<or> hd s1 = CHR ''+'') then tl s1 else s1);
          s3 = (if startsWith s2 ''0x'' \<or> startsWith s2 ''0X'' then drop 2 s2 else s2);
          ds = takeWhile (\<lambda>c. hex_digit c \<noteq> None) s3
      in if ds = [] then None
         else Some ((if neg then - 1 else 1) * int (hex_value ds)))"

text \<open>\<^verbatim>\<open>bigint.toString()\<close>: decimal digits, with a minus sign for a negative value.\<close>

fun show_nat :: "nat \<Rightarrow> string" where
  "show_nat n = (if n < 10 then [''0123456789'' ! n]
                 else show_nat (n div 10) @ [''0123456789'' ! (n mod 10)])"

declare show_nat.simps [simp del]

definition show_int :: "int \<Rightarrow> string" where
  "show_int i = (if i < 0 then CHR ''-'' # show_nat (nat (- i)) else show_nat (nat i))"

subsection \<open>The library calls\<close>

text \<open>
  \<^verbatim>\<open>decodeErrorResult\<close> and \<^verbatim>\<open>hexToString\<close> are imported from the \<^verbatim>\<open>viem\<close> package, which is
  not part of the repository; they are parameters of the model. \<^verbatim>\<open>decodeErrorResult\<close> is
  called with one of two ABIs; what the code reads from its result is
  \<^verbatim>\<open>decoded.args?.[0]\<close>, so the parameter yields that value, and \<open>None\<close> when the call
  throws. \<^verbatim>\<open>hexToString\<close> yields \<open>None\<close> when it throws.
\<close>

datatype error_abi = StandardErrorAbi | PanicAbi

datatype js_value = JString string | JBigint int | JUndefined

record viem =
  decodeErrorResult :: "error_abi \<Rightarrow> string \<Rightarrow> js_value option"
  hexToString :: "string \<Rightarrow> string option"

text \<open>The template literal of the panic branch: a bigint by \<^verbatim>\<open>toString\<close>, else \<^verbatim>\<open>String(code)\<close>.\<close>

fun panic_code_text :: "js_value \<Rightarrow> string" where
  "panic_code_text (JBigint c) = show_int c"
| "panic_code_text (JString s) = s"
| "panic_code_text JUndefined = ''undefined''"

subsection \<open>decodeSolidityError\<close>

text \<open>
  The \<^verbatim>\<open>catch\<close> block of the first branch, which decodes by hand: drop the ten characters
  of \<^verbatim>\<open>0x\<close> and selector, read the length from characters 64 to 128 of the rest, and slice
  the message from character 128 on. With a \<^verbatim>\<open>NaN\<close> length the end of the slice is
  \<^verbatim>\<open>NaN\<close>, which \<^verbatim>\<open>slice\<close> takes as 0.
\<close>

definition manual_messageHex :: "string \<Rightarrow> string" where
  "manual_messageHex output =
     (let errorData = slice_from output 10;
          lengthHex = slice errorData 64 128
      in case parseInt16 lengthHex of
           None \<Rightarrow> slice errorData 128 0
         | Some len \<Rightarrow> slice errorData 128 (128 + len * 2))"

text \<open>
  The first branch, taken when the output starts with the selector of \<^verbatim>\<open>Error(string)\<close>.
  The result is what the function returns from inside the branch, or \<open>None\<close> when control
  leaves the branch without returning (the decoded argument is not a string). A throw of
  \<^verbatim>\<open>hexToString\<close> inside the inner \<^verbatim>\<open>catch\<close> reaches the outer \<^verbatim>\<open>catch\<close>, which returns
  \<^verbatim>\<open>null\<close>.
\<close>

definition decode_standard_error :: "viem \<Rightarrow> string \<Rightarrow> string option option" where
  "decode_standard_error lib output =
     (case decodeErrorResult lib StandardErrorAbi output of
        Some (JString message) \<Rightarrow> Some (Some message)
      | Some _ \<Rightarrow> None
      | None \<Rightarrow> Some (hexToString lib (''0x'' @ manual_messageHex output)))"

definition decode_panic :: "viem \<Rightarrow> string \<Rightarrow> string" where
  "decode_panic lib output =
     (case decodeErrorResult lib PanicAbi output of
        Some code \<Rightarrow> ''Panic('' @ panic_code_text code @ '')''
      | None \<Rightarrow> ''Panic'')"

text \<open>The function; \<open>None\<close> is \<^verbatim>\<open>null\<close>.\<close>

definition decodeSolidityError :: "viem \<Rightarrow> string \<Rightarrow> string option" where
  "decodeSolidityError lib output =
     (if output = [] \<or> \<not> startsWith output ''0x'' then None
      else case (if startsWith output ''0x08c379a0'' then decode_standard_error lib output
                 else None) of
             Some returned \<Rightarrow> returned
           | None \<Rightarrow>
               if startsWith output ''0x4e487b71'' then Some (decode_panic lib output)
               else Some (''Unknown error ('' @ slice output 0 10 @ '')''))"

subsection \<open>A stand-in for the library\<close>

text \<open>
  To run the function on concrete payloads the two library calls need values. The stand-in
  below follows the ABI encoding in its standard layout: \<^verbatim>\<open>Panic(uint256)\<close> carries one
  32-byte word after the selector, \<^verbatim>\<open>Error(string)\<close> carries the offset word 32, a length
  word and the bytes of the message. As the library does, it pads a payload of odd length
  with a leading zero digit, and throws on a payload that is too short or has a character
  that is no hexadecimal digit. It is a simplification of the library, which also follows
  other offsets and decodes the message bytes as UTF-8, where the stand-in throws on another
  offset and takes each byte as one character; the two agree on the payloads used below,
  whose messages are ASCII text. No theorem about \<open>decodeSolidityError\<close> for an arbitrary
  library depends on the stand-in.
\<close>

fun hex_bytes :: "string \<Rightarrow> string" where
  "hex_bytes (a # b # rest) = char_of (hex_value [a, b]) # hex_bytes rest"
| "hex_bytes _ = []"

definition abi_decodeErrorResult :: "error_abi \<Rightarrow> string \<Rightarrow> js_value option" where
  "abi_decodeErrorResult abi output =
     (let digits = drop 10 output;
          payload = (if even (length digits) then digits else CHR ''0'' # digits)
      in case abi of
           PanicAbi \<Rightarrow>
             if startsWith output ''0x4e487b71'' \<and> 64 \<le> length payload \<and> all_hex payload
             then Some (JBigint (int (hex_value (take 64 payload)))) else None
         | StandardErrorAbi \<Rightarrow>
             (let len = hex_value (take 64 (drop 64 payload))
              in if startsWith output ''0x08c379a0'' \<and> 128 + 2 * len \<le> length payload
                    \<and> all_hex payload \<and> hex_value (take 64 payload) = 32
                 then Some (JString (hex_bytes (take (2 * len) (drop 128 payload))))
                 else None))"

definition abi_hexToString :: "string \<Rightarrow> string option" where
  "abi_hexToString hex =
     (let digits = drop 2 hex
      in if startsWith hex ''0x'' \<and> all_hex digits
         then Some (hex_bytes (if even (length digits) then digits else CHR ''0'' # digits))
         else None)"

definition abi_viem :: viem where
  "abi_viem = \<lparr> decodeErrorResult = abi_decodeErrorResult, hexToString = abi_hexToString \<rparr>"

text \<open>\<^verbatim>\<open>Panic(0x11)\<close>, arithmetic overflow, and \<^verbatim>\<open>Error("hi")\<close>, as the chain returns them.\<close>

definition panic_payload :: string where
  "panic_payload = ''0x4e487b71'' @ replicate 62 CHR ''0'' @ ''11''"

definition error_payload :: string where
  "error_payload = ''0x08c379a0'' @ replicate 62 CHR ''0'' @ ''20''
                     @ replicate 62 CHR ''0'' @ ''02''
                     @ ''6869'' @ replicate 60 CHR ''0''"

text \<open>
  A truncated \<^verbatim>\<open>Error(string)\<close> payload: the length word says 5 bytes, two bytes follow. The
  decoder throws on it, so the function decodes it by hand.
\<close>

definition offset_word :: string where
  "offset_word = replicate 62 CHR ''0'' @ ''20''"

definition length_word_5 :: string where
  "length_word_5 = replicate 62 CHR ''0'' @ ''05''"

definition truncated_payload :: string where
  "truncated_payload = ''0x08c379a0'' @ offset_word @ length_word_5 @ ''6869''"

section \<open>FiberUtils: the shared preconfs connection\<close>

text \<open>The \<^verbatim>\<open>readyState\<close> of a browser \<^verbatim>\<open>WebSocket\<close>.\<close>

datatype readyState = CONNECTING | OPEN | CLOSING | CLOSED

text \<open>
  \<^verbatim>\<open>WebSocket.close()\<close> starts the closing handshake of a socket that is connecting or
  open and does nothing otherwise; the \<^verbatim>\<open>close\<close> event comes later, as a task of its own.
\<close>

definition socket_close :: "nat \<Rightarrow> readyState list \<Rightarrow> readyState list" where
  "socket_close i socks =
     (if i < length socks \<and> (socks ! i = CONNECTING \<or> socks ! i = OPEN)
      then socks[i := CLOSING] else socks)"

text \<open>
  The fields \<^verbatim>\<open>preconfsWebSocket\<close>, \<^verbatim>\<open>preconfsConnected\<close> and \<^verbatim>\<open>preconfsCallbacks\<close> of the
  class. A socket object outlives the field that refers to it (its handlers stay attached and
  its events still fire), so the sockets are kept in a store: \<open>pc_sockets\<close> has the
  \<^verbatim>\<open>readyState\<close> of every socket \<^verbatim>\<open>initializePreconfsConnection\<close> has constructed, in
  order of construction, and \<^verbatim>\<open>preconfsWebSocket\<close> is an index into it or \<open>None\<close> for
  \<^verbatim>\<open>null\<close>; an index is stored only when the socket is constructed, so it always refers
  to a socket of the store. The length of the store is the number of connections opened. The
  callback set is a list without repetition, in insertion order, of callback identities.
  \<open>pc_subscribed\<close> logs the sockets on which \<^verbatim>\<open>fiber_subscribePreconfs\<close> was sent.
\<close>

record preconfs =
  pc_sockets :: "readyState list"
  preconfsWebSocket :: "nat option"
  preconfsConnected :: bool
  preconfsCallbacks :: "nat list"
  pc_subscribed :: "nat list"

definition preconfs_init :: preconfs where
  "preconfs_init = \<lparr> pc_sockets = [], preconfsWebSocket = None, preconfsConnected = False,
                      preconfsCallbacks = [], pc_subscribed = [] \<rparr>"

definition pc_active :: "preconfs \<Rightarrow> nat \<Rightarrow> bool" where
  "pc_active s w = (pc_sockets s ! w = CONNECTING \<or> pc_sockets s ! w = OPEN)"

definition initializePreconfsConnection :: "preconfs \<Rightarrow> preconfs" where
  "initializePreconfsConnection s =
     (if (case preconfsWebSocket s of None \<Rightarrow> False
          | Some w \<Rightarrow> preconfsConnected s \<or> pc_active s w)
      then s
      else
        (let s1 = (case preconfsWebSocket s of
                     None \<Rightarrow> s
                   | Some w \<Rightarrow> s\<lparr> pc_sockets := socket_close w (pc_sockets s),
                                  preconfsWebSocket := None, preconfsConnected := False \<rparr>)
         in s1\<lparr> pc_sockets := pc_sockets s1 @ [CONNECTING],
                preconfsWebSocket := Some (length (pc_sockets s1)) \<rparr>))"

text \<open>\<^verbatim>\<open>Set.add\<close> and \<^verbatim>\<open>Set.delete\<close> on the callback set.\<close>

definition set_add :: "nat \<Rightarrow> nat list \<Rightarrow> nat list" where
  "set_add c cs = (if c \<in> set cs then cs else cs @ [c])"

definition subscribeToPreconfs :: "nat \<Rightarrow> preconfs \<Rightarrow> preconfs" where
  "subscribeToPreconfs callback s =
     (let s1 = (if (case preconfsWebSocket s of None \<Rightarrow> True | Some w \<Rightarrow> \<not> pc_active s w)
                then initializePreconfsConnection s else s)
      in s1\<lparr> preconfsCallbacks := set_add callback (preconfsCallbacks s1) \<rparr>)"

text \<open>The function \<^verbatim>\<open>subscribeToPreconfs(callback)\<close> returns.\<close>

definition unsubscribe :: "nat \<Rightarrow> preconfs \<Rightarrow> preconfs" where
  "unsubscribe callback s =
     (let s1 = s\<lparr> preconfsCallbacks := removeAll callback (preconfsCallbacks s) \<rparr>
      in case preconfsWebSocket s1 of
           None \<Rightarrow> s1
         | Some w \<Rightarrow>
             if preconfsCallbacks s1 = []
             then s1\<lparr> pc_sockets := socket_close w (pc_sockets s1),
                      preconfsWebSocket := None, preconfsConnected := False \<rparr>
             else s1)"

text \<open>
  The handlers \<^verbatim>\<open>initializePreconfsConnection\<close> attaches to each socket it constructs. They
  are arrow functions over \<^verbatim>\<open>this\<close>: they read and write the fields of the service, whichever
  socket the event belongs to. \<^verbatim>\<open>onopen\<close> sends the subscription on the socket the field
  refers to, if that one is open.
\<close>

definition preconfs_onopen :: "preconfs \<Rightarrow> preconfs" where
  "preconfs_onopen s =
     (let s1 = s\<lparr> preconfsConnected := True \<rparr>
      in case preconfsWebSocket s1 of
           None \<Rightarrow> s1
         | Some w \<Rightarrow> if pc_sockets s1 ! w = OPEN
                     then s1\<lparr> pc_subscribed := pc_subscribed s1 @ [w] \<rparr> else s1)"

definition preconfs_onerror :: "preconfs \<Rightarrow> preconfs" where
  "preconfs_onerror s = s\<lparr> preconfsConnected := False \<rparr>"

definition preconfs_onclose :: "preconfs \<Rightarrow> preconfs" where
  "preconfs_onclose s = s\<lparr> preconfsConnected := False, preconfsWebSocket := None \<rparr>"

text \<open>
  What can happen to the service: a caller subscribes, a caller invokes an unsubscribe
  function, or the browser delivers the \<^verbatim>\<open>open\<close>, \<^verbatim>\<open>error\<close> or \<^verbatim>\<open>close\<close> event of one of the
  sockets. A socket opens only while connecting and closes at most once; an event that
  cannot happen leaves the state as it is.
\<close>

datatype preconfs_event =
  Subscribe nat | Unsubscribe nat | SocketOpens nat | SocketErrors nat | SocketCloses nat

fun preconfs_step :: "preconfs \<Rightarrow> preconfs_event \<Rightarrow> preconfs" where
  "preconfs_step s (Subscribe c) = subscribeToPreconfs c s"
| "preconfs_step s (Unsubscribe c) = unsubscribe c s"
| "preconfs_step s (SocketOpens i) =
     (if i < length (pc_sockets s) \<and> pc_sockets s ! i = CONNECTING
      then preconfs_onopen (s\<lparr> pc_sockets := (pc_sockets s)[i := OPEN] \<rparr>) else s)"
| "preconfs_step s (SocketErrors i) =
     (if i < length (pc_sockets s) \<and> pc_sockets s ! i \<noteq> CLOSED
      then preconfs_onerror s else s)"
| "preconfs_step s (SocketCloses i) =
     (if i < length (pc_sockets s) \<and> pc_sockets s ! i \<noteq> CLOSED
      then preconfs_onclose (s\<lparr> pc_sockets := (pc_sockets s)[i := CLOSED] \<rparr>) else s)"

definition run_preconfs :: "preconfs_event list \<Rightarrow> preconfs" where
  "run_preconfs evs = foldl preconfs_step preconfs_init evs"

section \<open>The WebSocket transport\<close>

subsection \<open>State\<close>

text \<open>
  The errors a request's promise is rejected with, by the text of the \<^verbatim>\<open>Error\<close>:
  \<^verbatim>\<open>response.error.message || "RPC error"\<close>, \<^verbatim>\<open>"WebSocket connection closed"\<close>,
  \<^verbatim>\<open>"WebSocket transport closed"\<close>, \<^verbatim>\<open>"WebSocket is not open"\<close> and
  \<^verbatim>\<open>"Request timeout for method: ..."\<close>.
\<close>

datatype rpc_failure =
  RpcError string | ConnectionClosed | TransportClosed | NotOpen | RequestTimeout string

text \<open>
  The callbacks given to \<^verbatim>\<open>setTimeout\<close>: the reconnect of \<^verbatim>\<open>onclose\<close>, the polling
  \<^verbatim>\<open>checkConnection\<close> of \<^verbatim>\<open>connect\<close>, and the timeout of the request with a given id and
  method.
\<close>

datatype timer_action = Reconnect | CheckConnection | TimeoutRequest nat string

text \<open>
  The \<^verbatim>\<open>{resolve, reject}\<close> pair stored in \<^verbatim>\<open>pendingRequests\<close> under a request id. The
  promise is the one of that request, so the pair is either its own two functions or the
  wrappers that call \<^verbatim>\<open>clearTimeout(timeout)\<close> first, for a timer handle.
\<close>

datatype handlers = Plain | ClearingTimeout nat

text \<open>A frame received: text that does not parse, or the fields the handler reads.\<close>

datatype ws_message =
  Unparseable
  | Message (msg_id: "nat option") (msg_method: "string option")
            (msg_error: "string option") (msg_result: string)

text \<open>
  The variables of the closure \<^verbatim>\<open>createFiberWebSocketTransport\<close> creates (\<^verbatim>\<open>ws\<close>,
  \<^verbatim>\<open>requestId\<close>, \<^verbatim>\<open>reconnectAttempts\<close>, \<^verbatim>\<open>pendingRequests\<close>) and its surroundings:
  \<^item> \<open>ws_sockets\<close>: the \<^verbatim>\<open>readyState\<close> of every socket \<^verbatim>\<open>connect\<close> has constructed; \<^verbatim>\<open>ws\<close>
    is an index into it or \<open>None\<close> for \<^verbatim>\<open>null\<close>;
  \<^item> \<open>pendingRequests\<close>: the \<^verbatim>\<open>Map\<close>, as an association list in insertion order;
  \<^item> \<open>ws_timers\<close>: the timers set and neither fired nor cleared, each with its handle, the
    time it is due at and its callback; \<open>ws_nextTimer\<close> is the next handle, \<open>ws_clock\<close> the
    time in milliseconds;
  \<^item> \<open>ws_promises\<close>: the request promises settled so far, by request id, each with its
    outcome and the time of settlement;
  \<^item> logs: every \<^verbatim>\<open>setTimeout\<close> call (delay and callback), every message sent (socket and
    envelope), every \<^verbatim>\<open>socket.close(code)\<close> call, every request id assigned.
\<close>

record transport =
  ws_sockets :: "readyState list"
  ws :: "nat option"
  requestId :: nat
  reconnectAttempts :: nat
  pendingRequests :: "(nat \<times> handlers) list"
  ws_timers :: "(nat \<times> nat \<times> timer_action) list"
  ws_nextTimer :: nat
  ws_clock :: nat
  ws_promises :: "(nat \<times> (rpc_failure + string) \<times> nat) list"
  ws_scheduled :: "(nat \<times> timer_action) list"
  ws_sent :: "(nat \<times> string envelope) list"
  ws_closeCalls :: "(nat \<times> nat) list"
  ws_issued :: "nat list"

definition maxReconnectAttempts :: nat where
  "maxReconnectAttempts = 5"

definition reconnectDelay :: nat where
  "reconnectDelay = 1000"

definition transport_init :: transport where
  "transport_init =
     \<lparr> ws_sockets = [], ws = None, requestId = 1, reconnectAttempts = 0, pendingRequests = [],
       ws_timers = [], ws_nextTimer = 0, ws_clock = 0, ws_promises = [], ws_scheduled = [],
       ws_sent = [], ws_closeCalls = [], ws_issued = [] \<rparr>"

subsection \<open>Timers and promises\<close>

definition setTimeout :: "timer_action \<Rightarrow> nat \<Rightarrow> transport \<Rightarrow> transport" where
  "setTimeout callback delay s =
     s\<lparr> ws_timers := ws_timers s @ [(ws_nextTimer s, ws_clock s + delay, callback)],
        ws_nextTimer := Suc (ws_nextTimer s),
        ws_scheduled := ws_scheduled s @ [(delay, callback)] \<rparr>"

definition clearTimeout :: "nat \<Rightarrow> transport \<Rightarrow> transport" where
  "clearTimeout h s = s\<lparr> ws_timers := filter (\<lambda>t. fst t \<noteq> h) (ws_timers s) \<rparr>"

text \<open>
  Resolving or rejecting the promise of request \<open>rid\<close>: a promise settles once, a later call
  of its \<^verbatim>\<open>resolve\<close> or \<^verbatim>\<open>reject\<close> does nothing.
\<close>

definition settle :: "nat \<Rightarrow> rpc_failure + string \<Rightarrow> transport \<Rightarrow> transport" where
  "settle rid out s =
     (if rid \<in> fst ` set (ws_promises s) then s
      else s\<lparr> ws_promises := ws_promises s @ [(rid, out, ws_clock s)] \<rparr>)"

text \<open>Calling \<^verbatim>\<open>request.resolve\<close> or \<^verbatim>\<open>request.reject\<close> of a stored pair.\<close>

fun call_handler :: "handlers \<Rightarrow> nat \<Rightarrow> rpc_failure + string \<Rightarrow> transport \<Rightarrow> transport" where
  "call_handler Plain rid out s = settle rid out s"
| "call_handler (ClearingTimeout h) rid out s = settle rid out (clearTimeout h s)"

text \<open>
  The loop \<^verbatim>\<open>for (const [id, request] of pendingRequests.entries())\<close> that rejects and
  deletes: every entry is visited, in insertion order, and the map is empty afterwards.
\<close>

definition reject_all :: "rpc_failure \<Rightarrow> transport \<Rightarrow> transport" where
  "reject_all err s =
     (fold (\<lambda>entry. call_handler (snd entry) (fst entry) (Inl err)) (pendingRequests s) s)
       \<lparr> pendingRequests := [] \<rparr>"

subsection \<open>connect, the socket handlers and close\<close>

definition ws_active :: "transport \<Rightarrow> nat \<Rightarrow> bool" where
  "ws_active s i = (ws_sockets s ! i = OPEN \<or> ws_sockets s ! i = CONNECTING)"

text \<open>
  \<^verbatim>\<open>checkConnection\<close>: resolves or rejects the promise of \<^verbatim>\<open>connect\<close> when \<^verbatim>\<open>ws\<close> is open,
  closing or closed, and polls again after 100 ms otherwise, also when \<^verbatim>\<open>ws\<close> is
  \<^verbatim>\<open>null\<close>. Only the timer touches the state.
\<close>

definition checkConnection :: "transport \<Rightarrow> transport" where
  "checkConnection s =
     (case ws s of
        None \<Rightarrow> setTimeout CheckConnection 100 s
      | Some i \<Rightarrow> if ws_sockets s ! i = CONNECTING then setTimeout CheckConnection 100 s else s)"

text \<open>
  \<^verbatim>\<open>connect\<close>, up to the point where its promise is created: an open socket is reused, a
  connecting one is polled, and otherwise a socket is constructed and \<^verbatim>\<open>ws\<close> refers to it.
\<close>

definition connect :: "transport \<Rightarrow> transport" where
  "connect s =
     (case ws s of
        None \<Rightarrow> s\<lparr> ws_sockets := ws_sockets s @ [CONNECTING], ws := Some (length (ws_sockets s)) \<rparr>
      | Some i \<Rightarrow>
          if ws_sockets s ! i = OPEN then s
          else if ws_sockets s ! i = CONNECTING then checkConnection s
          else s\<lparr> ws_sockets := ws_sockets s @ [CONNECTING],
                  ws := Some (length (ws_sockets s)) \<rparr>)"

definition ws_onopen :: "transport \<Rightarrow> transport" where
  "ws_onopen s = s\<lparr> reconnectAttempts := 0 \<rparr>"

definition ws_onmessage :: "ws_message \<Rightarrow> transport \<Rightarrow> transport" where
  "ws_onmessage m s =
     (case m of
        Unparseable \<Rightarrow> s
      | Message rid method err result \<Rightarrow>
          if rid = None \<and> method \<noteq> None \<and> method \<noteq> Some [] then s
          else case rid of
                 None \<Rightarrow> s
               | Some i \<Rightarrow>
                   (case map_of (pendingRequests s) i of
                      None \<Rightarrow> s
                    | Some request \<Rightarrow>
                        (let s1 = s\<lparr> pendingRequests := AList.delete i (pendingRequests s) \<rparr>
                         in case err of
                              Some msg \<Rightarrow>
                                call_handler request i
                                  (Inl (RpcError (if msg = [] then ''RPC error'' else msg))) s1
                            | None \<Rightarrow> call_handler request i (Inr result) s1)))"

definition ws_onclose :: "nat \<Rightarrow> transport \<Rightarrow> transport" where
  "ws_onclose code s =
     (let s1 = reject_all ConnectionClosed (s\<lparr> ws := None \<rparr>)
      in if code \<noteq> 1000 \<and> reconnectAttempts s1 < maxReconnectAttempts
         then (let s2 = s1\<lparr> reconnectAttempts := Suc (reconnectAttempts s1) \<rparr>
               in setTimeout Reconnect (reconnectDelay * reconnectAttempts s2) s2)
         else s1)"

definition close :: "transport \<Rightarrow> transport" where
  "close s =
     (let s1 = (case ws s of
                  None \<Rightarrow> s
                | Some i \<Rightarrow>
                    if ws_active s i
                    then s\<lparr> ws_sockets := socket_close i (ws_sockets s),
                            ws_closeCalls := ws_closeCalls s @ [(i, 1000)] \<rparr>
                    else s)
      in reject_all TransportClosed
           (s1\<lparr> ws := None, reconnectAttempts := maxReconnectAttempts \<rparr>))"

subsection \<open>request\<close>

text \<open>
  \<^verbatim>\<open>transport.request\<close> first awaits \<^verbatim>\<open>connect()\<close>; when that promise resolves with a
  socket, the executor of the request's promise runs. \<open>request_send\<close> is that executor, for
  the socket \<open>socket\<close> the await produced.
\<close>

definition request_send :: "string \<Rightarrow> string \<Rightarrow> nat \<Rightarrow> transport \<Rightarrow> transport" where
  "request_send method params socket s =
     (let rid = requestId s;
          s1 = s\<lparr> requestId := Suc rid, ws_issued := ws_issued s @ [rid],
                  pendingRequests := AList.update rid Plain (pendingRequests s) \<rparr>;
          message = ws_request_message method params rid;
          s2 = (if ws_sockets s1 ! socket = OPEN
                then s1\<lparr> ws_sent := ws_sent s1 @ [(socket, message)] \<rparr>
                else settle rid (Inl NotOpen)
                       (s1\<lparr> pendingRequests := AList.delete rid (pendingRequests s1) \<rparr>));
          timeout = ws_nextTimer s2;
          s3 = setTimeout (TimeoutRequest rid method) 30000 s2
      in s3\<lparr> pendingRequests := AList.update rid (ClearingTimeout timeout) (pendingRequests s3) \<rparr>)"

text \<open>The callback of the request's timer.\<close>

definition request_timeout :: "nat \<Rightarrow> string \<Rightarrow> transport \<Rightarrow> transport" where
  "request_timeout rid method s =
     (if rid \<in> fst ` set (pendingRequests s)
      then settle rid (Inl (RequestTimeout method))
             (s\<lparr> pendingRequests := AList.delete rid (pendingRequests s) \<rparr>)
      else s)"

subsection \<open>Runs of the transport\<close>

text \<open>
  What can happen to a transport:
  \<^item> \<open>CallRequest\<close>: \<^verbatim>\<open>transport.request\<close> is called and runs \<^verbatim>\<open>connect()\<close>;
  \<^item> \<open>RequestSend\<close>: the await of a request resolves with a socket and the executor runs;
  \<^item> \<open>CallClose\<close>: \<^verbatim>\<open>transport.close()\<close> is called;
  \<^item> \<open>WsOpens\<close>, \<open>WsErrors\<close>, \<open>WsMessage\<close>, \<open>WsCloses\<close>: the browser delivers an event of one
    of the sockets (a socket opens only while connecting, receives only while open or
    closing, and closes at most once, with a close code);
  \<^item> \<open>TimerFires\<close>: a timer that is due now fires, once;
  \<^item> \<open>TimePasses\<close>: the clock advances, never past a timer that is due.
  An event that cannot happen leaves the state as it is.
\<close>

datatype ws_event =
  CallRequest
  | RequestSend string string nat
  | CallClose
  | WsOpens nat
  | WsErrors nat
  | WsMessage nat ws_message
  | WsCloses nat nat
  | TimerFires nat
  | TimePasses nat

fun run_timer :: "timer_action \<Rightarrow> transport \<Rightarrow> transport" where
  "run_timer Reconnect s = connect s"
| "run_timer CheckConnection s = checkConnection s"
| "run_timer (TimeoutRequest rid method) s = request_timeout rid method s"

definition timer_fires :: "nat \<Rightarrow> transport \<Rightarrow> transport" where
  "timer_fires h s =
     (case find (\<lambda>t. fst t = h) (ws_timers s) of
        None \<Rightarrow> s
      | Some (h', due, callback) \<Rightarrow>
          if due = ws_clock s then run_timer callback (clearTimeout h s) else s)"

definition time_passes :: "nat \<Rightarrow> transport \<Rightarrow> transport" where
  "time_passes d s =
     (if list_all (\<lambda>t. ws_clock s + d \<le> fst (snd t)) (ws_timers s)
      then s\<lparr> ws_clock := ws_clock s + d \<rparr> else s)"

fun ws_step :: "transport \<Rightarrow> ws_event \<Rightarrow> transport" where
  "ws_step s CallRequest = connect s"
| "ws_step s (RequestSend method params socket) =
     (if socket < length (ws_sockets s) then request_send method params socket s else s)"
| "ws_step s CallClose = close s"
| "ws_step s (WsOpens i) =
     (if i < length (ws_sockets s) \<and> ws_sockets s ! i = CONNECTING
      then ws_onopen (s\<lparr> ws_sockets := (ws_sockets s)[i := OPEN] \<rparr>) else s)"
| "ws_step s (WsErrors i) = s"
| "ws_step s (WsMessage i m) =
     (if i < length (ws_sockets s) \<and> (ws_sockets s ! i = OPEN \<or> ws_sockets s ! i = CLOSING)
      then ws_onmessage m s else s)"
| "ws_step s (WsCloses i code) =
     (if i < length (ws_sockets s) \<and> ws_sockets s ! i \<noteq> CLOSED
      then ws_onclose code (s\<lparr> ws_sockets := (ws_sockets s)[i := CLOSED] \<rparr>) else s)"
| "ws_step s (TimerFires h) = timer_fires h s"
| "ws_step s (TimePasses d) = time_passes d s"

definition run_ws :: "ws_event list \<Rightarrow> transport" where
  "run_ws evs = foldl ws_step transport_init evs"

text \<open>How and when the promise of a request was settled, if it was.\<close>

abbreviation promise_of :: "transport \<Rightarrow> nat \<Rightarrow> ((rpc_failure + string) \<times> nat) option" where
  "promise_of s rid \<equiv> map_of (ws_promises s) rid"

text \<open>
  Well-formedness of a transport state: the keys of \<^verbatim>\<open>pendingRequests\<close> are distinct and
  below the counter \<^verbatim>\<open>requestId\<close>; a timer handle stored with an entry, and the handle of
  every timer that is set, has been handed out; no timer is overdue; a request timer is for
  an id below the counter, and so is a settled promise; and the ids assigned so far are
  1, 2, ... up to the counter.
\<close>

definition ws_wf :: "transport \<Rightarrow> bool" where
  "ws_wf s \<longleftrightarrow>
     distinct (map fst (pendingRequests s))
     \<and> (\<forall>i hs. map_of (pendingRequests s) i = Some hs \<longrightarrow>
           i < requestId s \<and> (\<forall>h. hs = ClearingTimeout h \<longrightarrow> h < ws_nextTimer s))
     \<and> (\<forall>t \<in> set (ws_timers s).
           fst t < ws_nextTimer s \<and> ws_clock s \<le> fst (snd t)
           \<and> (\<forall>i m. snd (snd t) = TimeoutRequest i m \<longrightarrow> i < requestId s))
     \<and> (\<forall>i. promise_of s i \<noteq> None \<longrightarrow> i < requestId s)
     \<and> ws_issued s = [1 ..< requestId s]
     \<and> 0 < requestId s"



section \<open>Results: method mapping\<close>

text \<open>
  Claim C5. On both transports the outbound method name is
  \<open>fiber_sendRawTransaction\<close> when the caller's method is \<open>eth_sendRawTransaction\<close> and the
  caller's method otherwise, whatever the parameters are, and the parameters are passed
  through unchanged. The mapping is a total function of the method name alone.
\<close>

theorem method_mapper_both_transports:
  "env_method (http_request_body m p) =
     (if m = ''eth_sendRawTransaction'' then ''fiber_sendRawTransaction'' else m)
   \<and> env_method (ws_request_message m p rid) =
     (if m = ''eth_sendRawTransaction'' then ''fiber_sendRawTransaction'' else m)
   \<and> env_params (http_request_body m p) = p
   \<and> env_params (ws_request_message m p rid) = p
   \<and> env_method (ws_request_message m p rid) = env_method (ws_request_message m p' rid')
   \<and> env_method (http_request_body m p) = env_method (http_request_body m p')"
  by (simp add: http_request_body_def ws_request_message_def mappedMethod_def)

section \<open>Results: the execution step and the defaults\<close>

lemma effective_gasPrice_supplied:
  "g \<noteq> 0 \<Longrightarrow> effective_gasPrice env (Some g) = (False, Inr g)"
  by (simp add: effective_gasPrice_def)

lemma effective_gasPrice_absent:
  "effective_gasPrice env None = (True, ce_getGasPrice env)"
  by (simp add: effective_gasPrice_def)

lemma effective_gasPrice_zero:
  "effective_gasPrice env (Some 0) = (True, ce_getGasPrice env)"
  by (simp add: effective_gasPrice_def)

lemma executeTransaction_supplied:
  assumes "tx_gasPrice p = Some g" and "g \<noteq> 0"
  shows "\<not> er_queried (executeTransaction env p)"
    and "map wc_gasPrice (er_calls (executeTransaction env p)) = [g]"
    and "ce_writeContract env (hd (er_calls (executeTransaction env p))) = Inr r \<Longrightarrow>
           er_outcome (executeTransaction env p) = Inr (r\<lparr> wr_weiSpent := Some (wr_gas_used r * g) \<rparr>)"
  using assms
  by (simp_all add: executeTransaction_def effective_gasPrice_def Let_def split: sum.splits)

lemma executeTransaction_weiSpent:
  assumes "er_outcome (executeTransaction env p) = Inr r"
  shows "\<exists>c. er_calls (executeTransaction env p) = [c]
           \<and> wr_weiSpent r = Some (wr_gas_used r * wc_gasPrice c)"
  using assms
  by (auto simp add: executeTransaction_def Let_def split: sum.splits prod.splits)

text \<open>
  Claim C8, evaluated where it fails. A caller of \<^verbatim>\<open>writeContract\<close> supplies the gas price
  \<open>0\<close> (a bigint, as the parameter type asks), so the queue entry carries gas price 0. On
  a chain whose \<^verbatim>\<open>getGasPrice\<close> answers 7, the execution step run on that entry asks the
  chain, calls the contract-write primitive with gas price 7 and reports
  \<open>weiSpent = 21000 * 7\<close>; the supplied price is not the one used.
\<close>

theorem executeTransaction_zero_gasPrice_queries_chain:
  "tx_gasPrice (writeContract_params (sample_params\<lparr> tx_gasPrice := Some 0 \<rparr>)) = Some 0
   \<and> er_queried (executeTransaction sample_chain
                    (writeContract_params (sample_params\<lparr> tx_gasPrice := Some 0 \<rparr>)))
   \<and> map wc_gasPrice (er_calls (executeTransaction sample_chain
                    (writeContract_params (sample_params\<lparr> tx_gasPrice := Some 0 \<rparr>)))) = [7]
   \<and> map_sum id wr_weiSpent (er_outcome (executeTransaction sample_chain
                    (writeContract_params (sample_params\<lparr> tx_gasPrice := Some 0 \<rparr>))))
       = Inr (Some 147000)"
  by (simp add: executeTransaction_def effective_gasPrice_def writeContract_params_def
      sample_chain_def sample_params_def sample_receipt_def)



section \<open>Results: the write queue\<close>

lemma queue_inv_init: "queue_inv queue_init"
  by (simp add: queue_inv_def queue_init_def)

lemma queue_inv_writeContract:
  assumes "queue_inv s" shows "queue_inv (writeContract p s)"
proof (cases "fq_workers s")
  case Nil
  with assms show ?thesis
    by (simp add: queue_inv_def writeContract_def processTransactionQueue_def drain_loop_def Let_def)
next
  case (Cons w ws)
  with assms show ?thesis
    by (auto simp add: queue_inv_def writeContract_def processTransactionQueue_def Let_def)
qed

lemma queue_inv_execution_done:
  assumes "queue_inv s" shows "queue_inv (execution_done k env s)"
proof (cases "k < length (fq_workers s)")
  case False
  with assms show ?thesis by (simp add: execution_done_def)
next
  case True
  with assms obtain w where w: "fq_workers s = [w]" and k: "k = 0"
    by (cases "fq_workers s") (auto simp add: queue_inv_def)
  with assms show ?thesis
    by (cases "transactionQueue s")
       (auto simp add: queue_inv_def execution_done_def drain_loop_def Let_def)
qed

lemma queue_inv_step: "queue_inv s \<Longrightarrow> \<not> is_cleanup e \<Longrightarrow> queue_inv (queue_step s e)"
  by (cases e) (simp_all add: queue_inv_writeContract queue_inv_execution_done)

lemma queue_inv_run: "cleanup_free evs \<Longrightarrow> queue_inv (run_queue evs)"
  by (induction evs rule: rev_induct)
     (simp_all add: run_queue_def cleanup_free_def queue_inv_init queue_inv_step)

lemma submissions_append: "submissions (evs @ evs') = submissions evs @ submissions evs'"
  by (induction evs rule: submissions.induct) simp_all

lemma fq_submitted_writeContract:
  "map qe_params (fq_submitted (writeContract p s))
     = map qe_params (fq_submitted s) @ [writeContract_params p]"
  by (simp add: writeContract_def processTransactionQueue_def drain_loop_def Let_def
      split: list.splits)

lemma fq_submitted_execution_done:
  "fq_submitted (execution_done k env s) = fq_submitted s"
  by (simp add: execution_done_def drain_loop_def Let_def split: list.splits)

lemma fq_submitted_run:
  "map qe_params (fq_submitted (run_queue evs)) = map writeContract_params (submissions evs)"
proof (induction evs rule: rev_induct)
  case Nil
  show ?case by (simp add: run_queue_def queue_init_def)
next
  case (snoc e evs)
  then show ?case
    by (cases e)
       (simp_all add: run_queue_def submissions_append fq_submitted_writeContract
          fq_submitted_execution_done cleanup_def)
qed

text \<open>
  As long as \<^verbatim>\<open>cleanup()\<close> is not called, the queue keeps its order: after any sequence of
  submissions through \<^verbatim>\<open>writeContract\<close> and completions of executions, interleaved in any
  way, the calls of \<^verbatim>\<open>executeTransaction\<close> made so far, followed by the entries still queued,
  are the submitted entries in submission order; every executed entry has been settled, in
  the same order, except the one in flight; there is at most one activation of the drain loop
  (and the flag is set exactly when there is one); and when there is none the queue is empty.
\<close>

lemma queue_fifo_without_cleanup:
  assumes "cleanup_free evs"
  shows "fq_executed (run_queue evs) @ map qe_params (transactionQueue (run_queue evs))
     = map writeContract_params (submissions evs)
   \<and> fq_executed (run_queue evs)
     = map (qe_params \<circ> fst) (fq_settled (run_queue evs)) @ map qe_params (fq_workers (run_queue evs))
   \<and> length (fq_workers (run_queue evs)) \<le> 1
   \<and> isProcessingQueue (run_queue evs) = (fq_workers (run_queue evs) \<noteq> [])
   \<and> (fq_workers (run_queue evs) = [] \<longrightarrow> transactionQueue (run_queue evs) = [])"
proof -
  have inv: "queue_inv (run_queue evs)"
    using assms by (rule queue_inv_run)
  have "fq_executed (run_queue evs) @ map qe_params (transactionQueue (run_queue evs))
          = map qe_params (fq_submitted (run_queue evs))"
    using inv unfolding queue_inv_def by simp
  with inv fq_submitted_run [of evs] show ?thesis
    unfolding queue_inv_def by simp
qed

text \<open>
  Claim C1, evaluated where it fails. Entries 0 and 1 are submitted: entry 0 is being
  executed, entry 1 is queued. \<^verbatim>\<open>cleanup()\<close> is called: it rejects entry 1 and clears the
  flag, while the activation executing entry 0 is still suspended. Entry 2 is submitted:
  the flag is clear, so a second activation starts and \<^verbatim>\<open>executeTransaction\<close> is called for
  entry 2 while the execution of entry 0 has not completed. Two drain activations are
  suspended at once, and the execution of entry 2 can complete, and its promise be resolved,
  before that of entry 0.
\<close>

theorem cleanup_starts_second_worker:
  "map qe_promise (fq_workers (run_queue [Submit sample_params,
        Submit (sample_params\<lparr> tx_functionName := ''reset'' \<rparr>), Cleanup,
        Submit (sample_params\<lparr> tx_functionName := ''decrement'' \<rparr>)])) = [0, 2]
   \<and> map tx_functionName (fq_executed (run_queue [Submit sample_params,
        Submit (sample_params\<lparr> tx_functionName := ''reset'' \<rparr>), Cleanup,
        Submit (sample_params\<lparr> tx_functionName := ''decrement'' \<rparr>)])) = [''increment'', ''decrement'']
   \<and> map (\<lambda>d. (qe_promise (fst d), map_sum id wr_hash (snd d)))
         (fq_settled (run_queue [Submit sample_params,
        Submit (sample_params\<lparr> tx_functionName := ''reset'' \<rparr>), Cleanup,
        Submit (sample_params\<lparr> tx_functionName := ''decrement'' \<rparr>)]))
       = [(1, Inl (TxError ''Service cleanup: Transaction cancelled''))]
   \<and> map (\<lambda>d. (qe_promise (fst d), map_sum id wr_hash (snd d)))
         (fq_settled (run_queue [Submit sample_params,
        Submit (sample_params\<lparr> tx_functionName := ''reset'' \<rparr>), Cleanup,
        Submit (sample_params\<lparr> tx_functionName := ''decrement'' \<rparr>),
        ExecutionDone 1 sample_chain]))
       = [(1, Inl (TxError ''Service cleanup: Transaction cancelled'')), (2, Inr ''0xabc'')]
   \<and> map qe_promise (fq_workers (run_queue [Submit sample_params,
        Submit (sample_params\<lparr> tx_functionName := ''reset'' \<rparr>), Cleanup,
        Submit (sample_params\<lparr> tx_functionName := ''decrement'' \<rparr>),
        ExecutionDone 1 sample_chain])) = [0]"
  by (simp add: run_queue_def queue_init_def writeContract_def processTransactionQueue_def
      drain_loop_def execution_done_def cleanup_def executeTransaction_def
      effective_gasPrice_def writeContract_params_def sample_params_def sample_chain_def
      sample_receipt_def Let_def)

section \<open>Results: decoding Solidity errors\<close>

lemma startsWith_append: "startsWith s p \<Longrightarrow> s = p @ drop (length p) s"
  by (metis append_take_drop_id startsWith_def)

lemma startsWith_error_selector:
  assumes "startsWith output ''0x08c379a0''"
  shows "output \<noteq> []" and "startsWith output ''0x''" and "\<not> startsWith output ''0x4e487b71''"
proof -
  from startsWith_append [OF assms] obtain r where r: "output = ''0x08c379a0'' @ r"
    by blast
  show "output \<noteq> []" and "startsWith output ''0x''" and "\<not> startsWith output ''0x4e487b71''"
    by (simp_all add: r startsWith_def)
qed

lemma startsWith_panic_selector:
  assumes "startsWith output ''0x4e487b71''"
  shows "output \<noteq> []" and "startsWith output ''0x''" and "\<not> startsWith output ''0x08c379a0''"
proof -
  from startsWith_append [OF assms] obtain r where r: "output = ''0x4e487b71'' @ r"
    by blast
  show "output \<noteq> []" and "startsWith output ''0x''" and "\<not> startsWith output ''0x08c379a0''"
    by (simp_all add: r startsWith_def)
qed

lemma slice_prefix: "slice s 0 (int k) = take k s"
  by (simp add: slice_def Let_def min_def)

lemma decodeSolidityError_message:
  assumes "startsWith output ''0x08c379a0''"
    and "decodeErrorResult lib StandardErrorAbi output = Some (JString m)"
  shows "decodeSolidityError lib output = Some m"
  using assms startsWith_error_selector [OF assms(1)]
  by (simp add: decodeSolidityError_def decode_standard_error_def)

lemma decodeSolidityError_manual:
  assumes "startsWith output ''0x08c379a0''"
    and "decodeErrorResult lib StandardErrorAbi output = None"
  shows "decodeSolidityError lib output = hexToString lib (''0x'' @ manual_messageHex output)"
  using assms startsWith_error_selector [OF assms(1)]
  by (simp add: decodeSolidityError_def decode_standard_error_def)

lemma decodeSolidityError_panic_code:
  assumes "startsWith output ''0x4e487b71''"
    and "decodeErrorResult lib PanicAbi output = Some (JBigint c)"
  shows "decodeSolidityError lib output = Some (''Panic('' @ show_int c @ '')'')"
  using assms startsWith_panic_selector [OF assms(1)]
  by (simp add: decodeSolidityError_def decode_panic_def)

lemma decodeSolidityError_panic_bare:
  assumes "startsWith output ''0x4e487b71''"
    and "decodeErrorResult lib PanicAbi output = None"
  shows "decodeSolidityError lib output = Some ''Panic''"
  using assms startsWith_panic_selector [OF assms(1)]
  by (simp add: decodeSolidityError_def decode_panic_def)

lemma decodeSolidityError_unknown:
  assumes "startsWith output ''0x''"
    and "\<not> startsWith output ''0x08c379a0''" and "\<not> startsWith output ''0x4e487b71''"
  shows "decodeSolidityError lib output = Some (''Unknown error ('' @ take 10 output @ '')'')"
proof -
  from assms(1) have "output \<noteq> []"
    by (auto simp add: startsWith_def)
  moreover have "slice output 0 10 = take 10 output"
    using slice_prefix [of "output" 10] by simp
  ultimately show ?thesis
    using assms by (simp add: decodeSolidityError_def)
qed

subsection \<open>Decoding by hand\<close>

lemma hex_digit_not_other:
  assumes "hex_digit c \<noteq> None"
  shows "\<not> is_js_space c" and "c \<noteq> CHR ''-''" and "c \<noteq> CHR ''+''"
    and "c \<noteq> CHR ''x''" and "c \<noteq> CHR ''X''"
proof -
  show "\<not> is_js_space c"
    using assms by (auto simp add: hex_digit_def is_js_space_def Let_def split: if_splits)
  have "hex_digit CHR ''-'' = None" "hex_digit CHR ''+'' = None"
    "hex_digit CHR ''x'' = None" "hex_digit CHR ''X'' = None"
    by (simp_all add: hex_digit_def)
  with assms show "c \<noteq> CHR ''-''" and "c \<noteq> CHR ''+''" and "c \<noteq> CHR ''x''" and "c \<noteq> CHR ''X''"
    by auto
qed

lemma parseInt16_hex:
  assumes "all_hex w" and "w \<noteq> []"
  shows "parseInt16 w = Some (int (hex_value w))"
proof -
  from assms obtain c cs where w: "w = c # cs"
    by (cases w) auto
  with assms have c: "hex_digit c \<noteq> None" and cs: "list_all (\<lambda>c. hex_digit c \<noteq> None) cs"
    by (simp_all add: all_hex_def)
  note no = hex_digit_not_other [OF c]
  have d: "dropWhile is_js_space w = w"
    using no(1) by (simp add: w)
  have prefix: "\<not> startsWith w ''0x''" "\<not> startsWith w ''0X''"
  proof -
    have "cs \<noteq> [] \<Longrightarrow> hd cs \<noteq> CHR ''x'' \<and> hd cs \<noteq> CHR ''X''"
      using cs hex_digit_not_other(4,5) [of "hd cs"] by (cases cs) auto
    then show "\<not> startsWith w ''0x''" "\<not> startsWith w ''0X''"
      by (cases cs; auto simp add: startsWith_def w)+
  qed
  have t: "takeWhile (\<lambda>c. hex_digit c \<noteq> None) w = w"
    using assms(1) by (simp add: all_hex_def takeWhile_eq_all_conv list_all_iff)
  have h: "hd w \<noteq> CHR ''-''" "hd w \<noteq> CHR ''+''"
    using no(2,3) by (simp_all add: w)
  have "parseInt16 w = (if w = [] then None else Some (1 * int (hex_value w)))"
    by (simp only: parseInt16_def Let_def d h prefix t simp_thms if_False)
  with assms(2) show ?thesis
    by simp
qed

lemma slice_between:
  assumes "0 \<le> b" and "b \<le> e"
  shows "slice s b e = take (nat e - nat b) (drop (nat b) s)"
  using assms by (auto simp add: slice_def Let_def min_def nat_diff_distrib)

lemma slice_backwards:
  assumes "0 \<le> e" and "e \<le> b"
  shows "slice s b e = []"
  using assms by (auto simp add: slice_def Let_def min_def)

lemma manual_messageHex_words:
  assumes "length offsetWord = 64" and "length lengthWord = 64" and "all_hex lengthWord"
  shows "manual_messageHex (''0x08c379a0'' @ offsetWord @ lengthWord @ rest)
           = take (2 * hex_value lengthWord) rest"
proof -
  let ?out = "''0x08c379a0'' @ offsetWord @ lengthWord @ rest"
  have e: "slice_from ?out 10 = offsetWord @ lengthWord @ rest"
    using slice_between [of 10 "int (length ?out)" ?out] by (simp add: slice_from_def)
  have l: "slice (offsetWord @ lengthWord @ rest) 64 128 = lengthWord"
    using assms(1,2) slice_between [of 64 128 "offsetWord @ lengthWord @ rest"] by simp
  from assms(2) have "lengthWord \<noteq> []"
    by auto
  with assms(3) have p: "parseInt16 lengthWord = Some (int (hex_value lengthWord))"
    by (rule parseInt16_hex)
  have m: "slice (offsetWord @ lengthWord @ rest) 128 (128 + int (hex_value lengthWord) * 2)
             = take (2 * hex_value lengthWord) rest"
    using assms(1,2)
      slice_between [of 128 "128 + int (hex_value lengthWord) * 2" "offsetWord @ lengthWord @ rest"]
    by (simp add: nat_add_distrib nat_mult_distrib mult.commute)
  show ?thesis
    by (simp only: manual_messageHex_def Let_def e l p option.case m)
qed

lemma manual_messageHex_short:
  assumes "length output \<le> 74"
  shows "manual_messageHex output = []"
proof -
  have e: "slice_from output 10 = drop 10 output"
    using slice_between [of 10 "int (length output)" "output"]
    by (cases "10 \<le> length output") (simp_all add: slice_from_def slice_def Let_def min_def)
  have l: "slice (drop 10 output) 64 128 = []"
    using assms slice_between [of 64 128 "drop 10 output"] by simp
  have "parseInt16 [] = None"
    by (simp add: parseInt16_def startsWith_def)
  moreover have "slice (drop 10 output) 128 0 = []"
    by (rule slice_backwards) simp_all
  ultimately show ?thesis
    by (simp only: manual_messageHex_def Let_def e l option.case)
qed

subsection \<open>The cases of the function\<close>

text \<open>
  Claim C7 as stated fails: the payload that consists of the \<^verbatim>\<open>Panic(uint256)\<close> selector
  alone starts with that selector, the decoder cannot read a code from it, and the function
  returns the bare text \<open>Panic\<close>, which contains no panic code.
\<close>

theorem decodeSolidityError_panic_without_code:
  "startsWith ''0x4e487b71'' ''0x4e487b71''
   \<and> decodeSolidityError abi_viem ''0x4e487b71'' = Some ''Panic''"
  by (simp add: decodeSolidityError_def startsWith_def decode_panic_def abi_viem_def
      abi_decodeErrorResult_def)

text \<open>
  Claim C7, amended. For every output and every behaviour of the library:
  \<^item> an output that starts with \<^verbatim>\<open>0x08c379a0\<close> gives the message the decoder finds in it;
  \<^item> when the decoder throws on such an output, the message is decoded by hand: if the
    selector is followed by a 64-character offset word, a length word of 64 hexadecimal
    digits with value \<open>n\<close>, and further characters, the result is what \<^verbatim>\<open>hexToString\<close> makes
    of the first \<open>2n\<close> of those further characters (of all of them when there are fewer),
    and \<^verbatim>\<open>null\<close> when \<^verbatim>\<open>hexToString\<close> throws; if the output ends before the length word
    begins, the result is what \<^verbatim>\<open>hexToString\<close> makes of the empty byte string;
  \<^item> an output that starts with \<^verbatim>\<open>0x4e487b71\<close> gives \<open>Panic(c)\<close> with the decimal panic code
    \<open>c\<close> the decoder finds in it, and the bare \<open>Panic\<close> when the decoder throws;
  \<^item> any other output that starts with \<^verbatim>\<open>0x\<close> gives \<open>Unknown error (...)\<close> around its first
    ten characters, the \<^verbatim>\<open>0x\<close> and the 4-byte selector.
\<close>

theorem decodeSolidityError_cases:
  "(startsWith output ''0x08c379a0''
      \<and> decodeErrorResult lib StandardErrorAbi output = Some (JString m)
      \<longrightarrow> decodeSolidityError lib output = Some m)
   \<and> (length offsetWord = 64 \<and> length lengthWord = 64 \<and> all_hex lengthWord
      \<and> decodeErrorResult lib StandardErrorAbi
            (''0x08c379a0'' @ offsetWord @ lengthWord @ rest) = None
      \<longrightarrow> decodeSolidityError lib (''0x08c379a0'' @ offsetWord @ lengthWord @ rest)
            = hexToString lib (''0x'' @ take (2 * hex_value lengthWord) rest))
   \<and> (startsWith output ''0x08c379a0'' \<and> length output \<le> 74
      \<and> decodeErrorResult lib StandardErrorAbi output = None
      \<longrightarrow> decodeSolidityError lib output = hexToString lib ''0x'')
   \<and> (startsWith output ''0x4e487b71''
      \<and> decodeErrorResult lib PanicAbi output = Some (JBigint c)
      \<longrightarrow> decodeSolidityError lib output = Some (''Panic('' @ show_int c @ '')''))
   \<and> (startsWith output ''0x4e487b71''
      \<and> decodeErrorResult lib PanicAbi output = None
      \<longrightarrow> decodeSolidityError lib output = Some ''Panic'')
   \<and> (startsWith output ''0x''
      \<and> \<not> startsWith output ''0x08c379a0'' \<and> \<not> startsWith output ''0x4e487b71''
      \<longrightarrow> decodeSolidityError lib output = Some (''Unknown error ('' @ take 10 output @ '')''))"
proof -
  have by_hand: "decodeSolidityError lib (''0x08c379a0'' @ offsetWord @ lengthWord @ rest)
            = hexToString lib (''0x'' @ take (2 * hex_value lengthWord) rest)"
    if "length offsetWord = 64" and "length lengthWord = 64" and "all_hex lengthWord"
      and "decodeErrorResult lib StandardErrorAbi
            (''0x08c379a0'' @ offsetWord @ lengthWord @ rest) = None"
  proof -
    have "startsWith (''0x08c379a0'' @ offsetWord @ lengthWord @ rest) ''0x08c379a0''"
      by (simp add: startsWith_def)
    from decodeSolidityError_manual [OF this that(4)] manual_messageHex_words [OF that(1,2,3)]
    show ?thesis
      by (simp only:)
  qed
  have short: "decodeSolidityError lib output = hexToString lib ''0x''"
    if "startsWith output ''0x08c379a0''" and "length output \<le> 74"
      and "decodeErrorResult lib StandardErrorAbi output = None"
    using decodeSolidityError_manual [OF that(1,3)] manual_messageHex_short [OF that(2)]
    by simp
  from by_hand short decodeSolidityError_message decodeSolidityError_panic_code
    decodeSolidityError_panic_bare decodeSolidityError_unknown
  show ?thesis
    by blast
qed

lemma panic_payload_decodes:
  "startsWith panic_payload ''0x4e487b71''"
  "decodeErrorResult abi_viem PanicAbi panic_payload = Some (JBigint 17)"
  by (simp add: startsWith_def panic_payload_def, simp add: abi_viem_def, code_simp)

lemma error_payload_decodes:
  "startsWith error_payload ''0x08c379a0''"
  "decodeErrorResult abi_viem StandardErrorAbi error_payload = Some (JString ''hi'')"
  by (simp add: startsWith_def error_payload_def, simp add: abi_viem_def, code_simp)

lemma bare_selector_fails_to_decode:
  "decodeErrorResult abi_viem StandardErrorAbi ''0x08c379a0'' = None"
  "decodeErrorResult abi_viem PanicAbi ''0x4e487b71'' = None"
  "hexToString abi_viem ''0x'' = Some []"
  by (simp_all add: abi_viem_def abi_decodeErrorResult_def abi_hexToString_def
      startsWith_def all_hex_def)

lemma truncated_payload_words:
  "truncated_payload = ''0x08c379a0'' @ offset_word @ length_word_5 @ ''6869''"
  "length offset_word = 64"
  "length length_word_5 = 64"
  by (simp_all add: truncated_payload_def offset_word_def length_word_5_def)

lemma truncated_payload_by_hand:
  "all_hex length_word_5"
  "hex_value length_word_5 = 5"
  "decodeErrorResult abi_viem StandardErrorAbi truncated_payload = None"
  "hexToString abi_viem ''0x6869'' = Some ''hi''"
  by (code_simp, code_simp, simp add: abi_viem_def, code_simp, simp add: abi_viem_def, code_simp)

theorem decodeSolidityError_cases_witness:
  "decodeSolidityError abi_viem error_payload = Some ''hi''
   \<and> decodeSolidityError abi_viem truncated_payload = Some ''hi''
   \<and> decodeSolidityError abi_viem ''0x08c379a0'' = Some []
   \<and> decodeSolidityError abi_viem panic_payload = Some ''Panic(17)''
   \<and> decodeSolidityError abi_viem ''0x4e487b71'' = Some ''Panic''
   \<and> decodeSolidityError abi_viem ''0xdeadbeef00'' = Some ''Unknown error (0xdeadbeef)''"
proof -
  have "decodeSolidityError abi_viem error_payload = Some ''hi''"
    using decodeSolidityError_cases [of error_payload abi_viem "''hi''"] error_payload_decodes
    by blast
  moreover have "decodeSolidityError abi_viem truncated_payload = Some ''hi''"
    using decodeSolidityError_cases [where lib = abi_viem and offsetWord = offset_word
        and lengthWord = length_word_5 and rest = "''6869''"]
      truncated_payload_words truncated_payload_by_hand
    by simp
  moreover have "decodeSolidityError abi_viem ''0x08c379a0'' = Some []"
    using decodeSolidityError_cases [of "''0x08c379a0''" abi_viem] bare_selector_fails_to_decode
    by (simp add: startsWith_def)
  moreover have "decodeSolidityError abi_viem panic_payload = Some ''Panic(17)''"
  proof -
    have "show_int 17 = ''17''"
      by (simp add: show_int_def show_nat.simps)
    with decodeSolidityError_cases [of panic_payload abi_viem _ _ _ _ 17]
      panic_payload_decodes
    show ?thesis by simp
  qed
  moreover have "decodeSolidityError abi_viem ''0x4e487b71'' = Some ''Panic''"
    using decodeSolidityError_cases [of "''0x4e487b71''" abi_viem] bare_selector_fails_to_decode
    by (simp add: startsWith_def)
  moreover have "decodeSolidityError abi_viem ''0xdeadbeef00'' = Some ''Unknown error (0xdeadbeef)''"
    using decodeSolidityError_cases [of "''0xdeadbeef00''" abi_viem]
    by (simp add: startsWith_def)
  ultimately show ?thesis
    by blast
qed

section \<open>Results: the shared preconfs connection\<close>

lemma unsubscribe_last_closes_tracked:
  assumes "preconfsWebSocket s = Some w" and "removeAll c (preconfsCallbacks s) = []"
  shows "pc_sockets (unsubscribe c s) = socket_close w (pc_sockets s)"
    and "preconfsWebSocket (unsubscribe c s) = None"
    and "\<not> preconfsConnected (unsubscribe c s)"
  using assms by (simp_all add: unsubscribe_def)

lemma unsubscribe_last_untracked:
  assumes "preconfsWebSocket s = None"
  shows "pc_sockets (unsubscribe c s) = pc_sockets s"
    and "preconfsConnected (unsubscribe c s) = preconfsConnected s"
  using assms by (simp_all add: unsubscribe_def)

lemma subscribe_untracked_opens:
  assumes "preconfsWebSocket s = None"
  shows "pc_sockets (subscribeToPreconfs c s) = pc_sockets s @ [CONNECTING]"
    and "preconfsWebSocket (subscribeToPreconfs c s) = Some (length (pc_sockets s))"
  using assms by (simp_all add: subscribeToPreconfs_def initializePreconfsConnection_def)

lemma subscribe_tracked_active_keeps:
  assumes "preconfsWebSocket s = Some w" and "pc_active s w"
  shows "pc_sockets (subscribeToPreconfs c s) = pc_sockets s"
    and "preconfsWebSocket (subscribeToPreconfs c s) = Some w"
  using assms by (simp_all add: subscribeToPreconfs_def)

text \<open>
  Claim C6, evaluated where it fails. Listener 1 subscribes (socket 0 is constructed), is
  removed (socket 0 is told to close) and listener 2 subscribes in the same turn (socket 1 is
  constructed); then the \<^verbatim>\<open>close\<close> event of socket 0 arrives, socket 1 opens, and listener 2,
  the last one, is removed. At the end no listener is registered, yet socket 1 is still open,
  the connected flag is still set, and the subscription request was never sent. A listener
  registered before that last removal, while socket 1 is open, makes the service construct a
  third socket.
\<close>

theorem preconfs_last_unsubscribe_leaves_socket_open:
  "preconfsCallbacks (run_preconfs [Subscribe 1, Unsubscribe 1, Subscribe 2,
                                    SocketCloses 0, SocketOpens 1, Unsubscribe 2]) = []
   \<and> pc_sockets (run_preconfs [Subscribe 1, Unsubscribe 1, Subscribe 2,
                                SocketCloses 0, SocketOpens 1, Unsubscribe 2]) = [CLOSED, OPEN]
   \<and> preconfsConnected (run_preconfs [Subscribe 1, Unsubscribe 1, Subscribe 2,
                                       SocketCloses 0, SocketOpens 1, Unsubscribe 2])
   \<and> pc_subscribed (run_preconfs [Subscribe 1, Unsubscribe 1, Subscribe 2,
                                   SocketCloses 0, SocketOpens 1, Unsubscribe 2]) = []
   \<and> pc_sockets (run_preconfs [Subscribe 1, Unsubscribe 1, Subscribe 2,
                                SocketCloses 0, SocketOpens 1, Subscribe 3])
       = [CLOSED, OPEN, CONNECTING]"
  by (simp add: run_preconfs_def preconfs_init_def subscribeToPreconfs_def unsubscribe_def
      initializePreconfsConnection_def set_add_def socket_close_def pc_active_def
      preconfs_onopen_def preconfs_onclose_def)

section \<open>Results: the WebSocket transport\<close>

subsection \<open>Frame lemmas\<close>

lemma fold_preserves: "(\<And>x s. f (g x s) = f s) \<Longrightarrow> f (fold g xs s) = f s"
  by (induction xs arbitrary: s) simp_all

lemma call_handler_frame:
  "ws_scheduled (call_handler h i out s) = ws_scheduled s"
  "reconnectAttempts (call_handler h i out s) = reconnectAttempts s"
  "ws_nextTimer (call_handler h i out s) = ws_nextTimer s"
  "ws_clock (call_handler h i out s) = ws_clock s"
  "ws_sockets (call_handler h i out s) = ws_sockets s"
  "ws (call_handler h i out s) = ws s"
  "requestId (call_handler h i out s) = requestId s"
  "ws_issued (call_handler h i out s) = ws_issued s"
  "ws_closeCalls (call_handler h i out s) = ws_closeCalls s"
  "pendingRequests (call_handler h i out s) = pendingRequests s"
  by (cases h; simp add: settle_def clearTimeout_def)+

lemma reject_all_frame:
  "ws_scheduled (reject_all e s) = ws_scheduled s"
  "reconnectAttempts (reject_all e s) = reconnectAttempts s"
  "ws_nextTimer (reject_all e s) = ws_nextTimer s"
  "ws_clock (reject_all e s) = ws_clock s"
  "ws_sockets (reject_all e s) = ws_sockets s"
  "ws (reject_all e s) = ws s"
  "requestId (reject_all e s) = requestId s"
  "ws_issued (reject_all e s) = ws_issued s"
  "ws_closeCalls (reject_all e s) = ws_closeCalls s"
  "pendingRequests (reject_all e s) = []"
  by (simp_all add: reject_all_def fold_preserves call_handler_frame)

lemma ws_onclose_attempts:
  "reconnectAttempts (ws_onclose code s)
     = (if code \<noteq> 1000 \<and> reconnectAttempts s < 5 then Suc (reconnectAttempts s)
        else reconnectAttempts s)"
  by (simp add: ws_onclose_def Let_def reject_all_frame setTimeout_def maxReconnectAttempts_def)

lemma ws_onclose_scheduled:
  "ws_scheduled (ws_onclose code s)
     = ws_scheduled s @ (if code \<noteq> 1000 \<and> reconnectAttempts s < 5
                         then [(Suc (reconnectAttempts s) * 1000, Reconnect)] else [])"
  by (simp add: ws_onclose_def Let_def reject_all_frame setTimeout_def maxReconnectAttempts_def
      reconnectDelay_def)

lemma reconnect_backoff_from:
  assumes "list_all (\<lambda>c. c \<noteq> 1000) codes" and "reconnectAttempts s \<le> 5"
  shows "ws_scheduled (fold ws_onclose codes s)
           = ws_scheduled s
             @ map (\<lambda>k. (k * 1000, Reconnect))
                 [Suc (reconnectAttempts s) ..< Suc (min (reconnectAttempts s + length codes) 5)]"
  using assms
proof (induction codes arbitrary: s)
  case Nil
  then show ?case by simp
next
  case (Cons c codes)
  show ?case
  proof (cases "reconnectAttempts s < 5")
    case True
    with Cons.prems have a: "reconnectAttempts (ws_onclose c s) = Suc (reconnectAttempts s)"
      and b: "ws_scheduled (ws_onclose c s)
                = ws_scheduled s @ [(Suc (reconnectAttempts s) * 1000, Reconnect)]"
      by (simp_all add: ws_onclose_attempts ws_onclose_scheduled)
    have "min (reconnectAttempts s + length (c # codes)) 5
            = min (Suc (reconnectAttempts s) + length codes) 5"
      by simp
    moreover from True
    have "Suc (reconnectAttempts s) < Suc (min (Suc (reconnectAttempts s) + length codes) 5)"
      by simp
    then have "[Suc (reconnectAttempts s) ..< Suc (min (Suc (reconnectAttempts s) + length codes) 5)]
        = Suc (reconnectAttempts s)
          # [Suc (Suc (reconnectAttempts s)) ..< Suc (min (Suc (reconnectAttempts s) + length codes) 5)]"
      by (rule upt_conv_Cons)
    ultimately have "[Suc (reconnectAttempts s) ..< Suc (min (reconnectAttempts s + length (c # codes)) 5)]
        = Suc (reconnectAttempts s)
          # [Suc (Suc (reconnectAttempts s)) ..< Suc (min (Suc (reconnectAttempts s) + length codes) 5)]"
      by (simp only:)
    with Cons.IH [of "ws_onclose c s"] Cons.prems True a b show ?thesis
      by (simp del: upt_Suc)
  next
    case False
    with Cons.prems have a: "reconnectAttempts (ws_onclose c s) = reconnectAttempts s"
      and b: "ws_scheduled (ws_onclose c s) = ws_scheduled s"
      by (simp_all add: ws_onclose_attempts ws_onclose_scheduled)
    moreover from False Cons.prems have "reconnectAttempts s = 5"
      by simp
    ultimately show ?thesis
      using Cons.IH [of "ws_onclose c s"] Cons.prems by simp
  qed
qed

subsection \<open>Promises\<close>







subsection \<open>Reconnecting\<close>

text \<open>
  Claim C2. When the \<^verbatim>\<open>close\<close> event of a socket arrives with a code other than 1000 and
  the counter is below 5, the handler increments the counter and makes exactly one
  \<^verbatim>\<open>setTimeout\<close> call, for a reconnect after the new counter times 1000 ms; that timer is
  then pending. With code 1000, or with the counter at 5 or above, it makes no
  \<^verbatim>\<open>setTimeout\<close> call and leaves the counter alone. The \<^verbatim>\<open>open\<close> handler sets the counter to
  0. Hence closures that follow one another without an open in between, from counter 0 and
  all abnormal, schedule reconnects after 1000, 2000, ... ms, five at most.
\<close>

theorem reconnect_policy:
  "(code \<noteq> 1000 \<and> reconnectAttempts s < 5 \<longrightarrow>
      reconnectAttempts (ws_onclose code s) = Suc (reconnectAttempts s)
      \<and> ws_scheduled (ws_onclose code s)
          = ws_scheduled s @ [(Suc (reconnectAttempts s) * 1000, Reconnect)]
      \<and> (ws_nextTimer s, ws_clock s + Suc (reconnectAttempts s) * 1000, Reconnect)
          \<in> set (ws_timers (ws_onclose code s)))
   \<and> (code = 1000 \<or> 5 \<le> reconnectAttempts s \<longrightarrow>
      reconnectAttempts (ws_onclose code s) = reconnectAttempts s
      \<and> ws_scheduled (ws_onclose code s) = ws_scheduled s)
   \<and> reconnectAttempts (ws_onopen s) = 0
   \<and> (reconnectAttempts s = 0 \<and> list_all (\<lambda>c. c \<noteq> 1000) codes \<longrightarrow>
      ws_scheduled (fold ws_onclose codes s)
        = ws_scheduled s
          @ map (\<lambda>k. (k * 1000, Reconnect)) [1 ..< Suc (min (length codes) 5)])"
proof -
  have "code \<noteq> 1000 \<and> reconnectAttempts s < 5 \<longrightarrow>
      (ws_nextTimer s, ws_clock s + Suc (reconnectAttempts s) * 1000, Reconnect)
          \<in> set (ws_timers (ws_onclose code s))"
    by (simp add: ws_onclose_def Let_def reject_all_frame setTimeout_def
        maxReconnectAttempts_def reconnectDelay_def)
  moreover have "reconnectAttempts s = 0 \<and> list_all (\<lambda>c. c \<noteq> 1000) codes \<longrightarrow>
      ws_scheduled (fold ws_onclose codes s)
        = ws_scheduled s
          @ map (\<lambda>k. (k * 1000, Reconnect)) [1 ..< Suc (min (length codes) 5)]"
    using reconnect_backoff_from [of codes s] by simp
  moreover have "reconnectAttempts (ws_onopen s) = 0"
    by (simp add: ws_onopen_def)
  ultimately show ?thesis
    by (simp add: ws_onclose_attempts ws_onclose_scheduled)
qed

theorem reconnect_policy_witness:
  "reconnectAttempts (ws_onclose 1006 transport_init) = 1
   \<and> ws_scheduled (ws_onclose 1006 transport_init) = [(1000, Reconnect)]
   \<and> ws_scheduled (ws_onclose 1000 transport_init) = []
   \<and> ws_scheduled (ws_onclose 1006 (close transport_init)) = []
   \<and> ws_scheduled (fold ws_onclose [1006, 1006, 1001, 1006, 1011, 1006, 1006] transport_init)
       = [(1000, Reconnect), (2000, Reconnect), (3000, Reconnect), (4000, Reconnect),
          (5000, Reconnect)]"
proof -
  have five: "[1 ..< Suc (min (length [1006, 1006, 1001, 1006, 1011, 1006, 1006 :: nat]) 5)]
                = [1, 2, 3, 4, 5]"
    by code_simp
  have "ws_scheduled (fold ws_onclose [1006, 1006, 1001, 1006, 1011, 1006, 1006] transport_init)
       = [(1000, Reconnect), (2000, Reconnect), (3000, Reconnect), (4000, Reconnect),
          (5000, Reconnect)]"
    using reconnect_policy [of _ transport_init "[1006, 1006, 1001, 1006, 1011, 1006, 1006]"]
    by (simp only: five) (simp add: transport_init_def)
  moreover have "reconnectAttempts (ws_onclose 1006 transport_init) = 1
      \<and> ws_scheduled (ws_onclose 1006 transport_init) = [(1000, Reconnect)]"
    using reconnect_policy [of 1006 transport_init]
    by (simp add: transport_init_def)
  moreover have "ws_scheduled (ws_onclose 1000 transport_init) = []"
    using reconnect_policy [of 1000 transport_init]
    by (simp add: transport_init_def)
  moreover have "ws_scheduled (ws_onclose 1006 (close transport_init)) = []"
    using reconnect_policy [of 1006 "close transport_init"]
    by (simp add: close_def reject_all_def transport_init_def maxReconnectAttempts_def)
  ultimately show ?thesis
    by blast
qed

subsection \<open>close\<close>

lemma close_effects:
  "ws (close s) = None"
  "reconnectAttempts (close s) = 5"
  "pendingRequests (close s) = []"
  by (simp_all add: close_def Let_def reject_all_frame maxReconnectAttempts_def)

lemma close_closes_socket:
  assumes "ws s = Some i" and "i < length (ws_sockets s)" and "ws_active s i"
  shows "ws_sockets (close s) = (ws_sockets s)[i := CLOSING]"
    and "ws_closeCalls (close s) = ws_closeCalls s @ [(i, 1000)]"
  using assms
  by (auto simp add: close_def Let_def reject_all_frame socket_close_def ws_active_def)


lemma closed_transport_schedules_nothing:
  "ws_scheduled (ws_onclose code (close s)) = ws_scheduled (close s)"
  by (simp add: ws_onclose_scheduled close_effects)

text \<open>
  Claim C3, evaluated where it fails. A socket opens and is lost with close code 1006, so
  a reconnect is scheduled for 1000 ms later. \<^verbatim>\<open>close()\<close> is called before that: the counter
  is 5, nothing is pending, but the reconnect timer is still set. When it fires,
  \<^verbatim>\<open>connect()\<close> constructs a second socket although no request was made, and when that
  socket opens the counter is back at 0.
\<close>

theorem close_does_not_cancel_reconnect:
  "reconnectAttempts (run_ws [CallRequest, WsOpens 0, WsCloses 0 1006, CallClose]) = 5
   \<and> ws_timers (run_ws [CallRequest, WsOpens 0, WsCloses 0 1006, CallClose])
       = [(0, 1000, Reconnect)]
   \<and> ws_sockets (run_ws [CallRequest, WsOpens 0, WsCloses 0 1006, CallClose,
                          TimePasses 1000, TimerFires 0]) = [CLOSED, CONNECTING]
   \<and> ws (run_ws [CallRequest, WsOpens 0, WsCloses 0 1006, CallClose,
                  TimePasses 1000, TimerFires 0]) = Some 1
   \<and> reconnectAttempts (run_ws [CallRequest, WsOpens 0, WsCloses 0 1006, CallClose,
                                 TimePasses 1000, TimerFires 0, WsOpens 1]) = 0"
  by (simp add: run_ws_def transport_init_def connect_def ws_onopen_def ws_onclose_def
      close_def reject_all_def setTimeout_def maxReconnectAttempts_def reconnectDelay_def
      time_passes_def timer_fires_def clearTimeout_def Let_def)

subsection \<open>Well-formed states\<close>

lemma wf_init: "ws_wf transport_init"
  by (simp add: ws_wf_def transport_init_def)

lemma wf_settle: "ws_wf s \<Longrightarrow> r < requestId s \<Longrightarrow> ws_wf (settle r out s)"
  by (auto simp add: ws_wf_def settle_def map_add_def split: option.splits)

lemma wf_clearTimeout: "ws_wf s \<Longrightarrow> ws_wf (clearTimeout h s)"
  by (auto simp add: ws_wf_def clearTimeout_def)

lemma wf_call_handler:
  assumes "ws_wf s" and "r < requestId s"
  shows "ws_wf (call_handler hs r out s)"
proof (cases hs)
  case Plain
  with assms show ?thesis
    by (simp add: wf_settle)
next
  case (ClearingTimeout h)
  from assms have "ws_wf (clearTimeout h s)" and "r < requestId (clearTimeout h s)"
    by (simp_all add: wf_clearTimeout) (simp add: clearTimeout_def)
  then have "ws_wf (settle r out (clearTimeout h s))"
    by (rule wf_settle)
  with ClearingTimeout show ?thesis
    by simp
qed

lemma wf_fold_reject:
  "ws_wf s \<Longrightarrow> \<forall>e \<in> set xs. fst e < requestId s \<Longrightarrow>
   ws_wf (fold (\<lambda>e. call_handler (snd e) (fst e) (Inl err)) xs s)"
  by (induction xs arbitrary: s) (simp_all add: wf_call_handler call_handler_frame)

lemma wf_no_pending: "ws_wf s \<Longrightarrow> ws_wf (s\<lparr> pendingRequests := [] \<rparr>)"
  by (simp add: ws_wf_def)

lemma wf_pending_below:
  assumes "ws_wf s" and "e \<in> set (pendingRequests s)"
  shows "fst e < requestId s"
proof -
  obtain i hs where e: "e = (i, hs)"
    by (cases e)
  with assms have "map_of (pendingRequests s) i = Some hs"
    by (simp add: ws_wf_def)
  with assms(1) e show ?thesis
    by (simp add: ws_wf_def)
qed

lemma wf_reject_all: "ws_wf s \<Longrightarrow> ws_wf (reject_all err s)"
  by (simp add: reject_all_def wf_no_pending wf_fold_reject wf_pending_below)

lemma wf_setTimeout:
  assumes "ws_wf s" and "\<And>i m. a = TimeoutRequest i m \<Longrightarrow> i < requestId s"
  shows "ws_wf (setTimeout a d s)"
  using assms by (auto simp add: ws_wf_def setTimeout_def less_Suc_eq)

lemma wf_setTimeout_plain:
  assumes "ws_wf s"
  shows "ws_wf (setTimeout Reconnect d s)" and "ws_wf (setTimeout CheckConnection d s)"
  using assms by (auto intro: wf_setTimeout)

lemma wf_sockets: "ws_wf (s\<lparr> ws_sockets := x \<rparr>) = ws_wf s"
  "ws_wf (s\<lparr> ws := y \<rparr>) = ws_wf s"
  "ws_wf (s\<lparr> reconnectAttempts := n \<rparr>) = ws_wf s"
  "ws_wf (s\<lparr> ws_closeCalls := c \<rparr>) = ws_wf s"
  "ws_wf (s\<lparr> ws_sent := m \<rparr>) = ws_wf s"
  by (simp_all add: ws_wf_def)

lemma wf_checkConnection: "ws_wf s \<Longrightarrow> ws_wf (checkConnection s)"
  by (simp add: checkConnection_def wf_setTimeout_plain split: option.splits)

lemma wf_connect: "ws_wf s \<Longrightarrow> ws_wf (connect s)"
  by (simp add: connect_def wf_checkConnection wf_sockets split: option.splits)

lemma wf_onopen: "ws_wf s \<Longrightarrow> ws_wf (ws_onopen s)"
  by (simp add: ws_onopen_def wf_sockets)

lemma wf_delete: "ws_wf s \<Longrightarrow> ws_wf (s\<lparr> pendingRequests := AList.delete i (pendingRequests s) \<rparr>)"
  by (simp add: ws_wf_def distinct_delete delete_conv')

lemma wf_map_of_below:
  "ws_wf s \<Longrightarrow> map_of (pendingRequests s) i = Some hs \<Longrightarrow> i < requestId s"
  by (simp add: ws_wf_def)

lemma wf_onmessage: "ws_wf s \<Longrightarrow> ws_wf (ws_onmessage m s)"
  by (auto simp add: ws_onmessage_def Let_def wf_delete
      intro!: wf_call_handler dest: wf_map_of_below split: ws_message.splits option.splits)

lemma wf_onclose: "ws_wf s \<Longrightarrow> ws_wf (ws_onclose code s)"
  by (simp add: ws_onclose_def Let_def wf_setTimeout_plain wf_reject_all wf_sockets)

lemma wf_close: "ws_wf s \<Longrightarrow> ws_wf (close s)"
  by (simp add: close_def Let_def wf_reject_all wf_sockets split: option.splits)

lemma wf_request_timeout: "ws_wf s \<Longrightarrow> ws_wf (request_timeout r m s)"
  by (auto simp add: request_timeout_def wf_delete intro!: wf_settle dest: wf_pending_below)

lemma wf_request_send: 
  assumes "ws_wf s" shows "ws_wf (request_send m p k s)"
proof -
  let ?rid = "requestId s"
  let ?s1 = "s\<lparr> requestId := Suc ?rid, ws_issued := ws_issued s @ [?rid],
                  pendingRequests := AList.update ?rid Plain (pendingRequests s) \<rparr>"
  from assms have s1: "ws_wf ?s1"
    by (auto simp add: ws_wf_def distinct_update update_conv' less_Suc_eq)
  let ?s2 = "if ws_sockets ?s1 ! k = OPEN
             then ?s1\<lparr> ws_sent := ws_sent ?s1 @ [(k, ws_request_message m p ?rid)] \<rparr>
             else settle ?rid (Inl NotOpen)
                    (?s1\<lparr> pendingRequests := AList.delete ?rid (pendingRequests ?s1) \<rparr>)"
  from s1 have s2: "ws_wf ?s2"
    using wf_delete [OF s1, of ?rid] by (simp add: wf_settle wf_sockets)
  have rid2: "requestId ?s2 = Suc ?rid"
    by (simp add: settle_def)
  let ?s3 = "setTimeout (TimeoutRequest ?rid m) 30000 ?s2"
  from s2 rid2 have s3: "ws_wf ?s3"
    by (intro wf_setTimeout) simp_all
  have "ws_nextTimer ?s2 < ws_nextTimer ?s3" "requestId ?s3 = Suc ?rid"
    using rid2 by (simp_all add: setTimeout_def)
  with s3 have "ws_wf (?s3\<lparr> pendingRequests :=
                    AList.update ?rid (ClearingTimeout (ws_nextTimer ?s2)) (pendingRequests ?s3) \<rparr>)"
    by (auto simp add: ws_wf_def distinct_update update_conv')
  then show ?thesis
    by (simp add: request_send_def Let_def)
qed

lemma wf_timer_fires: "ws_wf s \<Longrightarrow> ws_wf (timer_fires h s)"
proof -
  assume wf: "ws_wf s"
  have "ws_wf (run_timer a (clearTimeout h s))" for a
    by (cases a) (simp_all add: wf_connect wf_checkConnection wf_request_timeout
        wf_clearTimeout wf)
  with wf show ?thesis
    by (simp add: timer_fires_def split: option.splits)
qed

lemma wf_time_passes: "ws_wf s \<Longrightarrow> ws_wf (time_passes d s)"
  by (auto simp add: time_passes_def ws_wf_def list_all_iff)

lemma wf_step: "ws_wf s \<Longrightarrow> ws_wf (ws_step s e)"
  by (cases e)
     (simp_all add: wf_connect wf_request_send wf_close wf_onopen wf_onmessage wf_onclose
        wf_timer_fires wf_time_passes wf_sockets)

lemma wf_run: "ws_wf (run_ws evs)"
  by (induction evs rule: rev_induct) (simp_all add: run_ws_def wf_init wf_step)


subsection \<open>Request ids\<close>

lemma request_send_ids:
  "ws_issued (request_send m p k s) = ws_issued s @ [requestId s]"
  "requestId (request_send m p k s) = Suc (requestId s)"
  "map_of (pendingRequests (request_send m p k s)) (requestId s)
     = Some (ClearingTimeout (ws_nextTimer s))"
  by (simp_all add: request_send_def Let_def setTimeout_def settle_def update_conv')

text \<open>
  Claim C9. In every state the transport can reach: the ids assigned so far are
  1, 2, 3, ... in this order, one per request and strictly increasing; the ids in
  \<^verbatim>\<open>pendingRequests\<close> are distinct and all below the counter; so the id the next request
  gets, the counter, is in use by no pending request, and the request is stored under it.
  (The counter is a JavaScript number; it is modelled as a natural number, exact below
  \<open>2^53\<close>.)
\<close>

theorem request_ids_unique:
  "distinct (map fst (pendingRequests (run_ws evs)))
   \<and> (\<forall>i \<in> fst ` set (pendingRequests (run_ws evs)). i < requestId (run_ws evs))
   \<and> ws_issued (run_ws evs) = [1 ..< requestId (run_ws evs)]
   \<and> sorted_wrt (<) (ws_issued (run_ws evs))
   \<and> (k < length (ws_sockets (run_ws evs)) \<longrightarrow>
        ws_issued (ws_step (run_ws evs) (RequestSend m p k))
          = ws_issued (run_ws evs) @ [requestId (run_ws evs)]
        \<and> requestId (ws_step (run_ws evs) (RequestSend m p k)) = Suc (requestId (run_ws evs))
        \<and> requestId (run_ws evs) \<notin> fst ` set (pendingRequests (run_ws evs))
        \<and> map_of (pendingRequests (ws_step (run_ws evs) (RequestSend m p k)))
             (requestId (run_ws evs)) \<noteq> None)"
proof -
  have wf: "ws_wf (run_ws evs)"
    by (rule wf_run)
  then have d: "distinct (map fst (pendingRequests (run_ws evs)))"
    and iss: "ws_issued (run_ws evs) = [1 ..< requestId (run_ws evs)]"
    by (simp_all add: ws_wf_def)
  have below: "i < requestId (run_ws evs)" if "i \<in> fst ` set (pendingRequests (run_ws evs))" for i
  proof -
    from that obtain hs where "(i, hs) \<in> set (pendingRequests (run_ws evs))"
      by auto
    with d have "map_of (pendingRequests (run_ws evs)) i = Some hs"
      by simp
    with wf show ?thesis
      by (simp add: ws_wf_def)
  qed
  then have fresh: "requestId (run_ws evs) \<notin> fst ` set (pendingRequests (run_ws evs))"
    by blast
  have "sorted_wrt (<) (ws_issued (run_ws evs))"
    by (simp add: iss)
  with d iss below fresh show ?thesis
    by (simp add: request_send_ids)
qed

theorem request_ids_unique_witness:
  "ws_issued (run_ws [CallRequest, WsOpens 0, RequestSend ''eth_call'' ''[]'' 0,
                      RequestSend ''eth_chainId'' ''[]'' 0]) = [1, 2]
   \<and> map fst (pendingRequests (run_ws [CallRequest, WsOpens 0, RequestSend ''eth_call'' ''[]'' 0,
                      RequestSend ''eth_chainId'' ''[]'' 0])) = [1, 2]
   \<and> ws_issued (ws_step (run_ws [CallRequest, WsOpens 0, RequestSend ''eth_call'' ''[]'' 0,
                                 RequestSend ''eth_chainId'' ''[]'' 0])
                         (RequestSend ''eth_blockNumber'' ''[]'' 0)) = [1, 2, 3]"
proof -
  let ?evs = "[CallRequest, WsOpens 0, RequestSend ''eth_call'' ''[]'' 0,
               RequestSend ''eth_chainId'' ''[]'' 0]"
  have run: "ws_sockets (run_ws ?evs) = [OPEN]" "requestId (run_ws ?evs) = 3"
    "map fst (pendingRequests (run_ws ?evs)) = [1, 2]"
    by (simp_all add: run_ws_def transport_init_def connect_def ws_onopen_def request_send_def
        setTimeout_def Let_def)
  have "[1 ..< 3] = [1, 2 :: nat]"
    by code_simp
  with request_ids_unique [of ?evs 0 "''eth_blockNumber''" "''[]''"] run show ?thesis
    by simp
qed

subsection \<open>An outstanding request\<close>





















subsection \<open>What settles an outstanding request\<close>





subsection \<open>A settled promise stays as it is\<close>














subsection \<open>The timeout of a request\<close>




end
